theory Spec2Isabelle
  imports Complex_Main "HOL-Library.Word" "HOL-Library.Sublist" "HOL-Library.Multiset"
begin

section \<open>Hash analyzer: the detection core of \<open>backend/src/detector.ts\<close> and \<open>utils\<close>\<close>

text \<open>
  The development embeds the scoring engine (\<open>detectCandidates\<close>), the aggregator
  (\<open>analyzeInput\<close>) and the string primitives they call (\<open>getCharset\<close>,
  \<open>shannonEntropy\<close>, the eight decoders) as HOL functions, and proves the properties
  the specification states about them.

  Conventions.
  \<^item> A JavaScript string is the list of its UTF-16 code units; \<open>str.length\<close> is the
    length of that list, a regular expression without the \<open>u\<close> flag reads code units,
    and \<open>for (const char of str)\<close> reads code points.
  \<^item> A JavaScript number that carries a score or an entropy is a real number: sums,
    comparisons and \<open>Math.log2\<close> are exact, where the code rounds each of them to a
    double. The rounding can move a sum by a unit in the last place and so across a threshold
    or out of a tie: \<open>0.4 + 0.2 + 0.15 + 0.05\<close> is 0.8 here and 0.8000000000000002 in
    the code. A score stated below is the exact sum of the weights (0.7 where the code holds
    0.7000000000000001). Lengths and counts are natural numbers.
  \<^item> \<open>T | null\<close> and an optional field are \<open>T option\<close>; a value is truthy when
    it is present and not the empty string (for a number: not zero).
  \<^item> A \<open>throw\<close> is the left injection of a sum; a \<open>try/catch\<close> is a case
    distinction on it.
  \<^item> The pattern catalog, a module variable filled once by \<open>loadHashPatterns\<close>, is a
    parameter: the list of its entries in the order \<open>Object.entries\<close> yields them.
  \<^item> Record fields carry a suffix naming their record (\<open>_p\<close> pattern, \<open>_r\<close>
    detection result, \<open>_s\<close> statistics, \<open>_a\<close> analysis record), since several
    of the source's field names are also names of its local variables or of library constants.
  \<^item> Calls of \<open>console\<close> are left out.
\<close>

subsection \<open>Strings\<close>

type_synonym code_unit = "16 word"
type_synonym jsstring = "code_unit list"

definition js :: "string \<Rightarrow> jsstring" where
  "js s = map of_char s"

subsection \<open>Character classes of the regular expressions in \<open>utils\<close>\<close>

text \<open>
  \<open>[0-9]\<close> (also \<open>\d\<close>), \<open>[a-zA-Z]\<close>, \<open>[0-9a-fA-F]\<close> and
  \<open>[A-Za-z0-9+/]\<close>.
\<close>

definition in_range :: "code_unit \<Rightarrow> code_unit \<Rightarrow> code_unit \<Rightarrow> bool" where
  "in_range lo hi c = (lo \<le> c \<and> c \<le> hi)"

definition isDigit :: "code_unit \<Rightarrow> bool" where
  "isDigit c = in_range 0x30 0x39 c"

definition isLetter :: "code_unit \<Rightarrow> bool" where
  "isLetter c = (in_range 0x61 0x7A c \<or> in_range 0x41 0x5A c)"

definition hex_digit :: "code_unit \<Rightarrow> bool" where
  "hex_digit c = (in_range 0x30 0x39 c \<or> in_range 0x61 0x66 c \<or> in_range 0x41 0x46 c)"

definition base64_char :: "code_unit \<Rightarrow> bool" where
  "base64_char c = (in_range 0x41 0x5A c \<or> in_range 0x61 0x7A c \<or> in_range 0x30 0x39 c
     \<or> c = 0x2B \<or> c = 0x2F)"

subsection \<open>\<open>isHex\<close>, \<open>isBase64\<close>, \<open>isAscii\<close>, \<open>getCharset\<close>\<close>

text \<open>
  \<open>/^[0-9a-fA-F]+$/\<close>, \<open>/^[A-Za-z0-9+/]+=*$/\<close> and \<open>/^[\x00-\x7F]*$/\<close>,
  each tested against the whole string. In the second one \<open>=\<close> is not in the class, so a
  match takes the longest run of class characters (which must not be empty) and needs the rest
  to be \<open>=\<close> signs only.
\<close>

definition isHex :: "jsstring \<Rightarrow> bool" where
  "isHex str = (str \<noteq> [] \<and> list_all hex_digit str)"

definition isBase64 :: "jsstring \<Rightarrow> bool" where
  "isBase64 str = (takeWhile base64_char str \<noteq> [] \<and>
     list_all (\<lambda>c. c = 0x3D) (dropWhile base64_char str))"

definition isAscii :: "jsstring \<Rightarrow> bool" where
  "isAscii str = list_all (\<lambda>c. c \<le> 0x7F) str"

definition getCharset :: "jsstring \<Rightarrow> jsstring" where
  "getCharset str =
     (if isHex str then js ''hex''
      else if isBase64 str then js ''base64''
      else if isAscii str then js ''ascii''
      else js ''unknown'')"

subsection \<open>Code points\<close>

text \<open>
  String iteration yields a surrogate pair (a high surrogate followed by a low one) as one
  element and every other code unit on its own.
\<close>

definition high_surrogate :: "code_unit \<Rightarrow> bool" where
  "high_surrogate c = in_range 0xD800 0xDBFF c"

definition low_surrogate :: "code_unit \<Rightarrow> bool" where
  "low_surrogate c = in_range 0xDC00 0xDFFF c"

fun code_points :: "jsstring \<Rightarrow> jsstring list" where
  "code_points [] = []"
| "code_points [c] = [[c]]"
| "code_points (c # d # s) =
     (if high_surrogate c \<and> low_surrogate d then [c, d] # code_points s
      else [c] # code_points (d # s))"

subsection \<open>\<open>shannonEntropy\<close>\<close>

text \<open>
  \<open>freq\<close> is an object keyed by the iterated characters; \<open>bump\<close> is the statement
  \<open>freq[char] = (freq[char] || 0) + 1\<close> on the list of its entries in insertion order.
  The loop that fills \<open>freq\<close> is the body of \<open>freqAnalysis\<close> too.
  \<open>Object.values\<close> enumerates integer-like keys first, in ascending order, and then the
  other keys in insertion order; among keys that are single characters the integer-like ones
  are the digits. The guard \<open>!str || str.length === 0\<close> is the test for the empty
  string, and nothing in the body throws, so the \<open>catch\<close> branch is not reached.

  \<open>entropy_formula\<close> is the specification's formula, the negated sum of
  \<open>p * log2 p\<close> over the distinct characters, with \<open>p\<close> the probability of the
  character: its count divided by the number of characters counted. The code divides by
  \<open>str.length\<close> instead, the number of UTF-16 code units; the two are compared below.
\<close>

fun bump :: "(jsstring \<times> nat) list \<Rightarrow> jsstring \<Rightarrow> (jsstring \<times> nat) list" where
  "bump [] ch = [(ch, 1)]"
| "bump ((k, n) # freq) ch = (if k = ch then (k, n + 1) # freq else (k, n) # bump freq ch)"

definition freqAnalysis :: "jsstring \<Rightarrow> (jsstring \<times> nat) list" where
  "freqAnalysis str = foldl bump [] (code_points str)"

definition is_index_key :: "jsstring \<Rightarrow> bool" where
  "is_index_key k = (case k of [c] \<Rightarrow> isDigit c | _ \<Rightarrow> False)"

definition object_values :: "(jsstring \<times> 'a) list \<Rightarrow> 'a list" where
  "object_values obj =
     map snd (sort_key (\<lambda>kv. hd (fst kv)) (filter (\<lambda>kv. is_index_key (fst kv)) obj)
              @ filter (\<lambda>kv. \<not> is_index_key (fst kv)) obj)"

definition shannonEntropy :: "jsstring \<Rightarrow> real" where
  "shannonEntropy str =
     (if str = [] then 0
      else foldl (\<lambda>entropy count.
                   let p = real count / real (length str)
                   in if p > 0 then entropy - p * log 2 p else entropy)
             0 (object_values (freqAnalysis str)))"

definition entropy_formula :: "jsstring \<Rightarrow> real" where
  "entropy_formula str =
     - (\<Sum>ch \<in> set (code_points str).
          (real (count_list (code_points str) ch) / real (length (code_points str)))
          * log 2 (real (count_list (code_points str) ch) / real (length (code_points str))))"

subsection \<open>Runtime library: \<open>Buffer\<close>\<close>

text \<open>
  \<open>Buffer.from(str, 'base64')\<close>, \<open>Buffer.from(str, 'hex')\<close> and
  \<open>buf.toString('utf-8')\<close> belong to Node.js, not to the repository. The model
  follows what Node.js does: base64 decoding accepts the standard and the URL-safe alphabet,
  skips every other character and stops at the first \<open>=\<close>; a trailing group of two or
  three characters gives one or two bytes, a single trailing character gives none. Hex
  decoding reads pairs of hex digits and stops at the first pair that is not one. Decoding
  to text follows the UTF-8 decoder of the Encoding standard: a malformed sequence becomes
  U+FFFD and the byte that ended it is read again as the start of a sequence. None of the
  three throws. Both decoders of \<open>Buffer.from\<close> read a code unit by its low byte
  (\<open>low_byte\<close>): U+0141 counts as \<open>A\<close>, and U+D83D as \<open>=\<close>.
\<close>

type_synonym byte = "8 word"

definition low_byte :: "code_unit \<Rightarrow> code_unit" where
  "low_byte c = take_bit 8 c"

definition unbase64 :: "code_unit \<Rightarrow> nat option" where
  "unbase64 c =
     (if in_range 0x41 0x5A c then Some (unat c - 0x41)
      else if in_range 0x61 0x7A c then Some (unat c - 0x61 + 26)
      else if in_range 0x30 0x39 c then Some (unat c - 0x30 + 52)
      else if c = 0x2B \<or> c = 0x2D then Some 62
      else if c = 0x2F \<or> c = 0x5F then Some 63
      else None)"

fun base64_bytes :: "nat list \<Rightarrow> byte list" where
  "base64_bytes (a # b # c # d # rest) =
     of_nat (a * 4 + b div 16) # of_nat ((b mod 16) * 16 + c div 4) # of_nat ((c mod 4) * 64 + d)
       # base64_bytes rest"
| "base64_bytes [a, b, c] = [of_nat (a * 4 + b div 16), of_nat ((b mod 16) * 16 + c div 4)]"
| "base64_bytes [a, b] = [of_nat (a * 4 + b div 16)]"
| "base64_bytes _ = []"

definition buffer_from_base64 :: "jsstring \<Rightarrow> byte list" where
  "buffer_from_base64 str =
     base64_bytes (List.map_filter unbase64 (takeWhile (\<lambda>c. c \<noteq> 0x3D) (map low_byte str)))"

definition unhex :: "code_unit \<Rightarrow> nat option" where
  "unhex c =
     (if in_range 0x30 0x39 c then Some (unat c - 0x30)
      else if in_range 0x61 0x66 c then Some (unat c - 0x61 + 10)
      else if in_range 0x41 0x46 c then Some (unat c - 0x41 + 10)
      else None)"

fun buffer_from_hex :: "jsstring \<Rightarrow> byte list" where
  "buffer_from_hex (a # b # rest) =
     (case (unhex (low_byte a), unhex (low_byte b)) of
        (Some x, Some y) \<Rightarrow> of_nat (16 * x + y) # buffer_from_hex rest
      | _ \<Rightarrow> [])"
| "buffer_from_hex _ = []"

fun utf8_decode :: "nat \<Rightarrow> nat \<Rightarrow> nat \<Rightarrow> nat \<Rightarrow> byte list \<Rightarrow> nat list" where
  "utf8_decode cp needed lo hi [] = (if needed = 0 then [] else [0xFFFD])"
| "utf8_decode cp needed lo hi (b # bs) =
     (if needed \<noteq> 0 \<and> lo \<le> unat b \<and> unat b \<le> hi then
        (if needed = 1 then (cp * 64 + unat b mod 64) # utf8_decode 0 0 0x80 0xBF bs
         else utf8_decode (cp * 64 + unat b mod 64) (needed - 1) 0x80 0xBF bs)
      else
        (if needed \<noteq> 0 then [0xFFFD] else [])
        @ (if unat b \<le> 0x7F then unat b # utf8_decode 0 0 0x80 0xBF bs
           else if 0xC2 \<le> unat b \<and> unat b \<le> 0xDF then
             utf8_decode (unat b mod 32) 1 0x80 0xBF bs
           else if 0xE0 \<le> unat b \<and> unat b \<le> 0xEF then
             utf8_decode (unat b mod 16) 2 (if unat b = 0xE0 then 0xA0 else 0x80)
               (if unat b = 0xED then 0x9F else 0xBF) bs
           else if 0xF0 \<le> unat b \<and> unat b \<le> 0xF4 then
             utf8_decode (unat b mod 8) 3 (if unat b = 0xF0 then 0x90 else 0x80)
               (if unat b = 0xF4 then 0x8F else 0xBF) bs
           else 0xFFFD # utf8_decode 0 0 0x80 0xBF bs))"

definition utf16_encode :: "nat \<Rightarrow> jsstring" where
  "utf16_encode cp =
     (if cp < 0x10000 then [of_nat cp]
      else [of_nat (0xD800 + (cp - 0x10000) div 0x400), of_nat (0xDC00 + (cp - 0x10000) mod 0x400)])"

definition buffer_toString_utf8 :: "byte list \<Rightarrow> jsstring" where
  "buffer_toString_utf8 bytes = concat (map utf16_encode (utf8_decode 0 0 0x80 0xBF bytes))"

subsection \<open>Runtime library: \<open>decodeURIComponent\<close>\<close>

text \<open>
  The \<open>Decode\<close> operation of ECMA-262 with an empty set of preserved escapes: every
  \<open>%\<close> must start an escape of two hex digits, an octet with its top bit set starts
  a UTF-8 sequence whose remaining octets must be escapes too, and the sequence must encode
  a code point. \<open>None\<close> is the \<open>URIError\<close>.
\<close>

datatype uri_token = Unit code_unit | Octet nat | Malformed

fun uri_tokens :: "jsstring \<Rightarrow> uri_token list" where
  "uri_tokens [] = []"
| "uri_tokens (c # s) =
     (if c \<noteq> 0x25 then Unit c # uri_tokens s
      else (case s of
              a # b # rest \<Rightarrow>
                (case (unhex a, unhex b) of
                   (Some x, Some y) \<Rightarrow> Octet (16 * x + y) # uri_tokens rest
                 | _ \<Rightarrow> [Malformed])
            | _ \<Rightarrow> [Malformed]))"

definition continuation :: "nat \<Rightarrow> bool" where
  "continuation b = (0x80 \<le> b \<and> b \<le> 0xBF)"

definition utf8_single :: "nat list \<Rightarrow> nat option" where
  "utf8_single octets =
     (case octets of
        [a, b] \<Rightarrow>
          if 0xC2 \<le> a \<and> a \<le> 0xDF \<and> continuation b
          then Some ((a mod 32) * 64 + b mod 64) else None
      | [a, b, c] \<Rightarrow>
          if 0xE0 \<le> a \<and> a \<le> 0xEF \<and> (if a = 0xE0 then 0xA0 else 0x80) \<le> b
             \<and> b \<le> (if a = 0xED then 0x9F else 0xBF) \<and> continuation c
          then Some (((a mod 16) * 64 + b mod 64) * 64 + c mod 64) else None
      | [a, b, c, d] \<Rightarrow>
          if 0xF0 \<le> a \<and> a \<le> 0xF4 \<and> (if a = 0xF0 then 0x90 else 0x80) \<le> b
             \<and> b \<le> (if a = 0xF4 then 0x8F else 0xBF) \<and> continuation c \<and> continuation d
          then Some ((((a mod 8) * 64 + b mod 64) * 64 + c mod 64) * 64 + d mod 64) else None
      | _ \<Rightarrow> None)"

fun uri_decode :: "uri_token list \<Rightarrow> nat list \<Rightarrow> nat \<Rightarrow> jsstring option" where
  "uri_decode [] octets needed = (if needed = 0 then Some [] else None)"
| "uri_decode (Malformed # ts) octets needed = None"
| "uri_decode (Unit c # ts) octets needed =
     (if needed = 0 then map_option ((#) c) (uri_decode ts [] 0) else None)"
| "uri_decode (Octet B # ts) octets needed =
     (if needed = 0 then
        (if B < 0x80 then map_option ((#) (of_nat B)) (uri_decode ts [] 0)
         else if B < 0xC0 \<or> 0xF8 \<le> B then None
         else uri_decode ts [B] (if B < 0xE0 then 1 else if B < 0xF0 then 2 else 3))
      else if needed = 1 then
        (case utf8_single (octets @ [B]) of
           None \<Rightarrow> None
         | Some V \<Rightarrow> map_option ((@) (utf16_encode V)) (uri_decode ts [] 0))
      else uri_decode ts (octets @ [B]) (needed - 1))"

definition decodeURIComponent :: "jsstring \<Rightarrow> jsstring option" where
  "decodeURIComponent str = uri_decode (uri_tokens str) [] 0"

subsection \<open>Numbers in template literals\<close>

text \<open>
  \<open>show_int\<close> is the text of an integer inside a template literal (all its digits,
  as JavaScript prints an integer below \<open>10^21\<close>), \<open>toFixed2\<close> is
  \<open>toFixed(2)\<close>: the nearest number of hundredths, the larger one on a tie.
\<close>

definition digit_unit :: "nat \<Rightarrow> code_unit" where
  "digit_unit d = of_nat (0x30 + d)"

function show_nat :: "nat \<Rightarrow> jsstring" where
  "show_nat n = (if n < 10 then [digit_unit n] else show_nat (n div 10) @ [digit_unit (n mod 10)])"
  by pat_completeness auto
termination
  by (relation "measure id") auto

declare show_nat.simps [simp del]

definition show_int :: "int \<Rightarrow> jsstring" where
  "show_int i = (if i < 0 then 0x2D # show_nat (nat (- i)) else show_nat (nat i))"

definition toFixed2 :: "real \<Rightarrow> jsstring" where
  "toFixed2 x =
     (let n = nat \<lfloor>\<bar>x\<bar> * 100 + 1 / 2\<rfloor>
      in (if x < 0 then [0x2D] else [])
         @ show_nat (n div 100) @ [0x2E, digit_unit (n mod 100 div 10), digit_unit (n mod 10)])"

subsection \<open>\<open>safeBase64Decode\<close>, \<open>safeHexDecode\<close>\<close>

definition safeBase64Decode :: "jsstring \<Rightarrow> jsstring option" where
  "safeBase64Decode str =
     (let missingPadding = length str mod 4;
          str' = (if missingPadding \<noteq> 0 then str @ replicate (4 - missingPadding) 0x3D else str)
      in Some (buffer_toString_utf8 (buffer_from_base64 str')))"

definition safeHexDecode :: "jsstring \<Rightarrow> jsstring option" where
  "safeHexDecode str =
     (if length str mod 2 \<noteq> 0 then None
      else Some (buffer_toString_utf8 (buffer_from_hex str)))"

subsection \<open>\<open>getCharStats\<close>\<close>

text \<open>
  \<open>new Set(str).size\<close> counts distinct code points; the three \<open>match\<close> calls
  count code units.
\<close>

record CharStats =
  total_s :: nat
  unique_s :: nat
  digits_s :: nat
  letters_s :: nat
  special_s :: nat
  entropy_s :: real

definition getCharStats :: "jsstring \<Rightarrow> CharStats" where
  "getCharStats str =
     (if str = [] then
        \<lparr>total_s = 0, unique_s = 0, digits_s = 0, letters_s = 0, special_s = 0, entropy_s = 0\<rparr>
      else
        \<lparr>total_s = length str,
         unique_s = length (remdups (code_points str)),
         digits_s = length (filter isDigit str),
         letters_s = length (filter isLetter str),
         special_s = length (filter (\<lambda>c. \<not> (isLetter c \<or> isDigit c)) str),
         entropy_s = shannonEntropy str\<rparr>)"

subsection \<open>The remaining decoders\<close>

text \<open>
  \<open>decodeChunks width radix\<close> is the loop shared by \<open>decodeBinary\<close> and
  \<open>decodeOctal\<close>: the chunks start at the multiples of the width, a short last chunk
  is dropped, and a chunk contributes its character when its value is printable.
  \<open>unicode_escapes\<close> returns the string with every \<open>\uXXXX\<close> replaced, and whether
  there was one. \<open>replace_all\<close> is \<open>replace\<close> with a global regular expression
  whose source has no metacharacter (the entity names), \<open>numeric_entities\<close> the one
  for \<open>/&#(\d+);/g\<close>; in both the third argument counts the characters of the current
  match that are still to be skipped.
\<close>

definition rot13_unit :: "code_unit \<Rightarrow> code_unit" where
  "rot13_unit char =
     (let code = unat char
      in if code \<ge> 65 \<and> code \<le> 90 then of_nat (((code - 65 + 13) mod 26) + 65)
         else if code \<ge> 97 \<and> code \<le> 122 then of_nat (((code - 97 + 13) mod 26) + 97)
         else char)"

definition decodeROT13 :: "jsstring \<Rightarrow> jsstring option" where
  "decodeROT13 str = Some (map (\<lambda>char. if isLetter char then rot13_unit char else char) str)"

definition decodeURL :: "jsstring \<Rightarrow> jsstring option" where
  "decodeURL str = decodeURIComponent str"

definition parseInt :: "nat \<Rightarrow> jsstring \<Rightarrow> nat" where
  "parseInt radix ds = foldl (\<lambda>v d. radix * v + (unat d - 0x30)) 0 ds"

definition printable :: "nat \<Rightarrow> bool" where
  "printable charCode = (charCode \<ge> 32 \<and> charCode \<le> 126)"

definition decodeChunks :: "nat \<Rightarrow> nat \<Rightarrow> jsstring \<Rightarrow> jsstring" where
  "decodeChunks width radix str =
     concat (map (\<lambda>k. let chunk = take width (drop (width * k) str)
                       in if length chunk = width \<and> printable (parseInt radix chunk)
                          then [of_nat (parseInt radix chunk)] else [])
                 [0 ..< (length str + width - 1) div width])"

definition decodeBinary :: "jsstring \<Rightarrow> jsstring option" where
  "decodeBinary str =
     (if \<not> (str \<noteq> [] \<and> list_all (in_range 0x30 0x31) str) then None
      else let result = decodeChunks 8 2 str in if result \<noteq> [] then Some result else None)"

definition decodeOctal :: "jsstring \<Rightarrow> jsstring option" where
  "decodeOctal str =
     (if \<not> (str \<noteq> [] \<and> list_all (in_range 0x30 0x37) str) then None
      else let result = decodeChunks 3 8 str in if result \<noteq> [] then Some result else None)"

fun unicode_escapes :: "jsstring \<Rightarrow> (jsstring \<times> bool)" where
  "unicode_escapes (b # u # h1 # h2 # h3 # h4 # s) =
     (if b = 0x5C \<and> u = 0x75 \<and> hex_digit h1 \<and> hex_digit h2 \<and> hex_digit h3 \<and> hex_digit h4
      then (of_nat (foldl (\<lambda>v h. 16 * v + the (unhex h)) 0 [h1, h2, h3, h4])
              # fst (unicode_escapes s), True)
      else (b # fst (unicode_escapes (u # h1 # h2 # h3 # h4 # s)),
            snd (unicode_escapes (u # h1 # h2 # h3 # h4 # s))))"
| "unicode_escapes s = (s, False)"

definition decodeUnicode :: "jsstring \<Rightarrow> jsstring option" where
  "decodeUnicode str =
     (if \<not> snd (unicode_escapes str) then None else Some (fst (unicode_escapes str)))"

fun replace_all :: "jsstring \<Rightarrow> jsstring \<Rightarrow> nat \<Rightarrow> jsstring \<Rightarrow> jsstring" where
  "replace_all entity char skip [] = []"
| "replace_all entity char skip (c # s) =
     (if skip > 0 then replace_all entity char (skip - 1) s
      else if entity \<noteq> [] \<and> prefix entity (c # s)
        then char @ replace_all entity char (length entity - 1) s
      else c # replace_all entity char 0 s)"

definition htmlEntities :: "(jsstring \<times> jsstring) list" where
  "htmlEntities =
     [(js ''&amp;'', js ''&''), (js ''&lt;'', js ''<''), (js ''&gt;'', js ''>''),
      (js ''&quot;'', [0x22]), (js ''&#39;'', [0x27]), (js ''&nbsp;'', js '' ''),
      (js ''&copy;'', [0xA9]), (js ''&reg;'', [0xAE]), (js ''&trade;'', [0x2122])]"

fun numeric_entities :: "nat \<Rightarrow> jsstring \<Rightarrow> jsstring" where
  "numeric_entities skip [] = []"
| "numeric_entities skip (c # s) =
     (if skip > 0 then numeric_entities (skip - 1) s
      else (case s of
              h # t \<Rightarrow>
                (let num = takeWhile isDigit t
                 in if c = 0x26 \<and> h = 0x23 \<and> num \<noteq> [] \<and> take 1 (dropWhile isDigit t) = [0x3B]
                    then (if printable (parseInt 10 num) then [of_nat (parseInt 10 num)]
                          else c # h # num @ [0x3B])
                         @ numeric_entities (length num + 2) s
                    else c # numeric_entities 0 s)
            | [] \<Rightarrow> [c]))"

definition decodeHTML :: "jsstring \<Rightarrow> jsstring option" where
  "decodeHTML str =
     (let result = foldl (\<lambda>result (entity, char). replace_all entity char 0 result) str htmlEntities;
          result' = numeric_entities 0 result
      in if result' \<noteq> str then Some result' else None)"

subsection \<open>Records of \<open>detector.ts\<close>\<close>

text \<open>
  \<open>length_p\<close> is an integer: the catalog gives a length in characters. An error value
  is an \<open>Error\<close> with its message.
\<close>

record HashPattern =
  name_p :: jsstring
  length_p :: "int option"
  charset_p :: "jsstring option"
  prefixes_p :: "jsstring list option"
  suffixes_p :: "jsstring list option"
  example_p :: "jsstring option"
  source_p :: "jsstring option"
  regex_p :: "jsstring option"
  notes_p :: "jsstring option"

datatype color = green | yellow | red

record DetectionResult =
  id_r :: jsstring
  name_r :: jsstring
  score_r :: real
  color_r :: color
  reasons_r :: "jsstring list"

record AnalysisResult =
  input_a :: jsstring
  results_a :: "DetectionResult list"
  stats_a :: CharStats
  decoding_a :: "(jsstring \<times> jsstring) list"
  freq_a :: "(jsstring \<times> nat) list"

datatype js_error = Error (message: jsstring)

subsection \<open>Scoring one descriptor\<close>

text \<open>
  The body of the loop over the catalog, one definition per numbered step of the source.
  A \<open>tally\<close> is the pair of the local variables \<open>score\<close> and \<open>reasons\<close>;
  \<open>credit\<close> is \<open>score += weight; reasons.push(reason)\<close>.

  \<open>new RegExp(pattern.regex)\<close> compiles text of the catalog with the runtime's
  regular expression engine. The engine is a parameter \<open>RegExp\<close>: it maps a source
  text to \<open>None\<close> when the constructor throws and to the predicate \<open>test\<close>
  otherwise (a call of \<open>test\<close> is taken to return). The \<open>try/catch\<close> around
  the two calls skips the step on a throw.

  \<open>charsetMatch\<close> is the value of the local variable of that name when the last
  condition of step 4 is evaluated, \<open>charsetVariation\<close> is that condition, and
  \<open>variation_reason\<close> recognises the evidence string that the branch pushes by the
  fixed text its template starts with.
\<close>

type_synonym regexp = "jsstring \<Rightarrow> bool"
type_synonym tally = "real \<times> jsstring list"

definition credit :: "real \<Rightarrow> jsstring \<Rightarrow> tally \<Rightarrow> tally" where
  "credit weight reason t = (fst t + weight, snd t @ [reason])"

definition truthy :: "jsstring option \<Rightarrow> bool" where
  "truthy v = (case v of None \<Rightarrow> False | Some s \<Rightarrow> s \<noteq> [])"

definition regexStep :: "(jsstring \<Rightarrow> regexp option) \<Rightarrow> HashPattern \<Rightarrow> jsstring \<Rightarrow> tally \<Rightarrow> tally" where
  "regexStep RegExp pattern input t =
     (if truthy (regex_p pattern) then
        (case RegExp (the (regex_p pattern)) of
           None \<Rightarrow> t
         | Some regex \<Rightarrow> if regex input then credit 0.4 (js ''Regex pattern match'') t else t)
      else t)"

definition matchedPrefix :: "HashPattern \<Rightarrow> jsstring \<Rightarrow> jsstring option" where
  "matchedPrefix pattern input =
     (case prefixes_p pattern of
        None \<Rightarrow> None
      | Some ps \<Rightarrow> find (\<lambda>p. prefix p input) ps)"

definition prefixStep :: "HashPattern \<Rightarrow> jsstring \<Rightarrow> tally \<Rightarrow> tally" where
  "prefixStep pattern input t =
     (case matchedPrefix pattern input of
        None \<Rightarrow> t
      | Some p \<Rightarrow> credit 0.25 (js ''Prefix match ('' @ p @ js '')'') t)"

definition lengthStep :: "HashPattern \<Rightarrow> jsstring \<Rightarrow> tally \<Rightarrow> tally" where
  "lengthStep pattern input t =
     (case length_p pattern of
        None \<Rightarrow> t
      | Some n \<Rightarrow>
          if n = 0 then t
          else let inputLength = length input;
                   lengthDiff = \<bar>int inputLength - n\<bar>
               in if lengthDiff = 0 then
                    credit 0.4 (js ''Exact length match ('' @ show_int n @ js '')'') t
                  else if lengthDiff \<le> 4 then
                    credit 0.3 (js ''Fuzzy length match ('' @ show_int n @ js '' vs ''
                      @ show_nat inputLength @ js '', diff: '' @ show_int lengthDiff @ js '')'') t
                  else if lengthDiff \<le> 8 then
                    credit 0.1 (js ''Near length match ('' @ show_int n @ js '' vs ''
                      @ show_nat inputLength @ js '', diff: '' @ show_int lengthDiff @ js '')'') t
                  else t)"

definition decodedCharsetIs :: "jsstring option \<Rightarrow> jsstring \<Rightarrow> bool" where
  "decodedCharsetIs decoded cs = (truthy decoded \<and> cs = getCharset (the decoded))"

definition charsetMatch :: "jsstring \<Rightarrow> jsstring \<Rightarrow> jsstring \<Rightarrow> bool" where
  "charsetMatch cs charset input =
     (cs = charset \<or> decodedCharsetIs (safeBase64Decode input) cs
        \<or> decodedCharsetIs (safeHexDecode input) cs)"

definition charsetVariation :: "jsstring \<Rightarrow> jsstring \<Rightarrow> jsstring \<Rightarrow> bool" where
  "charsetVariation cs charset input =
     (\<not> charsetMatch cs charset input \<and> cs = js ''hex''
        \<and> (charset = js ''hex'' \<or> charset = js ''alphanum''))"

definition variation_reason :: "jsstring \<Rightarrow> bool" where
  "variation_reason reason = prefix (js ''Charset variation match ('') reason"

definition charsetStep :: "HashPattern \<Rightarrow> jsstring \<Rightarrow> jsstring \<Rightarrow> tally \<Rightarrow> tally" where
  "charsetStep pattern input charset t =
     (if truthy (charset_p pattern) then
        (let cs = the (charset_p pattern);
             t1 = (if cs = charset then credit 0.2 (js ''Charset match ('' @ charset @ js '')'') t
                   else t);
             base64Decoded = safeBase64Decode input;
             hexDecoded = safeHexDecode input;
             t2 = (if decodedCharsetIs base64Decoded cs
                   then credit 0.15 (js ''Decoded charset match ('' @ cs @ js '')'') t1 else t1);
             t3 = (if decodedCharsetIs hexDecoded cs
                   then credit 0.15 (js ''Decoded charset match ('' @ cs @ js '')'') t2 else t2)
         in if charsetVariation cs charset input
            then credit 0.1 (js ''Charset variation match ('' @ charset @ js '' -> '' @ cs @ js '')'') t3
            else t3)
      else t)"

definition matchedSuffix :: "HashPattern \<Rightarrow> jsstring \<Rightarrow> jsstring option" where
  "matchedSuffix pattern input =
     (case suffixes_p pattern of
        None \<Rightarrow> None
      | Some ss \<Rightarrow> find (\<lambda>s. suffix s input) ss)"

definition suffixStep :: "HashPattern \<Rightarrow> jsstring \<Rightarrow> tally \<Rightarrow> tally" where
  "suffixStep pattern input t =
     (case matchedSuffix pattern input of
        None \<Rightarrow> t
      | Some s \<Rightarrow> credit 0.1 (js ''Suffix match ('' @ s @ js '')'') t)"

definition entropyThreshold :: "jsstring \<Rightarrow> real" where
  "entropyThreshold input = max 2.5 (min 4.0 (3.0 + real (length input) / 50))"

definition entropyStep :: "jsstring \<Rightarrow> real \<Rightarrow> tally \<Rightarrow> tally" where
  "entropyStep input entropy t =
     (if entropy > entropyThreshold input then
        credit 0.1 (js ''High entropy ('' @ toFixed2 entropy @ js '', threshold: ''
          @ toFixed2 (entropyThreshold input) @ js '')'') t
      else t)"

definition decodingStep :: "HashPattern \<Rightarrow> jsstring \<Rightarrow> tally \<Rightarrow> tally" where
  "decodingStep pattern input t =
     (let base64Decoded = safeBase64Decode input;
          hexDecoded = safeHexDecode input
      in if truthy base64Decoded \<or> truthy hexDecoded then
           (let t1 = credit 0.1 (js ''Decodable content'') t;
                t2 = (if truthy (charset_p pattern)
                         \<and> decodedCharsetIs base64Decoded (the (charset_p pattern))
                      then credit 0.05 (js ''Decoded content charset match'') t1 else t1)
            in if truthy (charset_p pattern)
                  \<and> decodedCharsetIs hexDecoded (the (charset_p pattern))
               then credit 0.05 (js ''Decoded content charset match'') t2 else t2)
         else t)"

definition signatureStep :: "HashPattern \<Rightarrow> jsstring \<Rightarrow> tally \<Rightarrow> tally" where
  "signatureStep pattern input t =
     (if matchedPrefix pattern input \<noteq> None then
        credit 0.3 (js ''Signature match ('' @ hd (the (prefixes_p pattern)) @ js '')'') t
      else t)"

definition scorePattern ::
  "(jsstring \<Rightarrow> regexp option) \<Rightarrow> jsstring \<Rightarrow> jsstring \<Rightarrow> real \<Rightarrow> HashPattern \<Rightarrow> tally" where
  "scorePattern RegExp input charset entropy pattern =
     (signatureStep pattern input
       (decodingStep pattern input
         (entropyStep input entropy
           (suffixStep pattern input
             (charsetStep pattern input charset
               (lengthStep pattern input
                 (prefixStep pattern input
                   (regexStep RegExp pattern input (0, [])))))))))"

definition candidate ::
  "(jsstring \<Rightarrow> regexp option) \<Rightarrow> jsstring \<Rightarrow> jsstring \<Rightarrow> real
     \<Rightarrow> jsstring \<times> HashPattern \<Rightarrow> DetectionResult list" where
  "candidate RegExp input charset entropy entry =
     (let patternId = fst entry; pattern = snd entry;
          score = fst (scorePattern RegExp input charset entropy pattern);
          reasons = snd (scorePattern RegExp input charset entropy pattern)
      in if score \<ge> 0.25 then
           [\<lparr>id_r = patternId, name_r = name_p pattern, score_r = min score 1.0,
             color_r = (if score > 0.8 then green else if score \<ge> 0.55 then yellow else red),
             reasons_r = reasons\<rparr>]
         else [])"

subsection \<open>\<open>detectCandidates\<close>\<close>

text \<open>
  \<open>array_sort\<close> is \<open>Array.prototype.sort\<close> with a comparator: a stable sort
  (ECMAScript 2019) that puts \<open>a\<close> before \<open>b\<close> when \<open>cmp a b\<close> is negative.
  In a typed call nothing in the body of \<open>detectCandidates\<close> throws outside the inner
  \<open>try\<close>, so its outer \<open>catch\<close> is not reached.
\<close>

fun insert_sorted :: "('a \<Rightarrow> 'a \<Rightarrow> real) \<Rightarrow> 'a \<Rightarrow> 'a list \<Rightarrow> 'a list" where
  "insert_sorted cmp x [] = [x]"
| "insert_sorted cmp x (y # ys) =
     (if cmp x y \<le> 0 then x # y # ys else y # insert_sorted cmp x ys)"

definition array_sort :: "('a \<Rightarrow> 'a \<Rightarrow> real) \<Rightarrow> 'a list \<Rightarrow> 'a list" where
  "array_sort cmp xs = foldr (insert_sorted cmp) xs []"

definition detectCandidates ::
  "(jsstring \<Rightarrow> regexp option) \<Rightarrow> (jsstring \<times> HashPattern) list \<Rightarrow> jsstring
     \<Rightarrow> DetectionResult list" where
  "detectCandidates RegExp hashPatterns input =
     (if input = [] then []
      else let charset = getCharset input;
               entropy = shannonEntropy input;
               candidates = foldl (\<lambda>candidates entry.
                               candidates @ candidate RegExp input charset entropy entry)
                             [] hashPatterns;
               sortedCandidates = array_sort (\<lambda>a b. score_r b - score_r a) candidates
           in take 3 sortedCandidates)"

subsection \<open>\<open>analyzeInput\<close>\<close>

text \<open>
  \<open>analyzeInput_try\<close> is the \<open>try\<close> block, \<open>fallback\<close> the record built
  in the \<open>catch\<close> block, \<open>analyzeInput\<close> the function. \<open>probe\<close> is one
  \<open>if (decoded) decoding.key = decoded\<close>; the decoders catch their own errors, so
  the \<open>try/catch\<close> around each call is not reached. The decoding object is the list of
  its entries in insertion order. The result type keeps the left injection, so that
  "does not throw" is a statement about the function and not about its type.
\<close>

definition probe ::
  "jsstring \<Rightarrow> jsstring option \<Rightarrow> (jsstring \<times> jsstring) list \<Rightarrow> (jsstring \<times> jsstring) list" where
  "probe key decoded decoding = (if truthy decoded then decoding @ [(key, the decoded)] else decoding)"

definition unknownResult :: DetectionResult where
  "unknownResult =
     \<lparr>id_r = js ''unknown'', name_r = js ''Unknown'', score_r = 0.0, color_r = red,
      reasons_r = [js ''no patterns matched'']\<rparr>"

definition analyzeInput_try ::
  "(jsstring \<Rightarrow> regexp option) \<Rightarrow> (jsstring \<times> HashPattern) list \<Rightarrow> jsstring
     \<Rightarrow> js_error + AnalysisResult" where
  "analyzeInput_try RegExp hashPatterns input =
     (if input = [] then Inl (Error (js ''Invalid input: must be a non-empty string''))
      else if length input > 10000 then
        Inl (Error (js ''Input too long: maximum 10,000 characters allowed''))
      else
        (let results = detectCandidates RegExp hashPatterns input;
             stats = getCharStats input;
             freq = [(js ''total'', total_s stats), (js ''unique'', unique_s stats),
                     (js ''digits'', digits_s stats), (js ''letters'', letters_s stats),
                     (js ''special'', special_s stats)];
             decoding =
               probe (js ''html'') (decodeHTML input)
                (probe (js ''unicode'') (decodeUnicode input)
                  (probe (js ''octal'') (decodeOctal input)
                    (probe (js ''binary'') (decodeBinary input)
                      (probe (js ''url'') (decodeURL input)
                        (probe (js ''rot13'') (decodeROT13 input)
                          (probe (js ''hex'') (safeHexDecode input)
                            (probe (js ''base64'') (safeBase64Decode input) [])))))));
             results' = (if length results = 0 then results @ [unknownResult] else results)
         in Inr \<lparr>input_a = input, results_a = results', stats_a = stats,
                 decoding_a = decoding, freq_a = freq\<rparr>))"

definition fallback :: "jsstring \<Rightarrow> js_error \<Rightarrow> AnalysisResult" where
  "fallback input error =
     \<lparr>input_a = input,
      results_a = [\<lparr>id_r = js ''error'', name_r = js ''Analysis Error'', score_r = 0.0,
                    color_r = red,
                    reasons_r = [js ''analysis failed: '' @ message error]\<rparr>],
      stats_a = \<lparr>total_s = length input,
                 unique_s = length (remdups (code_points input)),
                 digits_s = length (filter isDigit input),
                 letters_s = length (filter isLetter input),
                 special_s = length (filter (\<lambda>c. \<not> (isLetter c \<or> isDigit c)) input),
                 entropy_s = 0\<rparr>,
      decoding_a = [],
      freq_a = []\<rparr>"

definition analyzeInput ::
  "(jsstring \<Rightarrow> regexp option) \<Rightarrow> (jsstring \<times> HashPattern) list \<Rightarrow> jsstring
     \<Rightarrow> js_error + AnalysisResult" where
  "analyzeInput RegExp hashPatterns input =
     (case analyzeInput_try RegExp hashPatterns input of
        Inr result \<Rightarrow> Inr result
      | Inl error \<Rightarrow> Inr (fallback input error))"

subsection \<open>Example inputs\<close>

text \<open>
  \<open>no_RegExp\<close> rejects every source text. It stands for the engine in the
  evaluations below, none of which has a descriptor with a regex: \<open>RegExp\<close> is not
  called there. \<open>grin_twice\<close> is the string of two U+1F600, four code units.
\<close>

definition no_RegExp :: "jsstring \<Rightarrow> regexp option" where
  "no_RegExp src = None"

definition grin_twice :: jsstring where
  "grin_twice = [0xD83D, 0xDE00, 0xD83D, 0xDE00]"

definition md5_input :: jsstring where
  "md5_input = js ''5d41402abc4b2a76b9719d911017c592''"

definition md5_pattern :: HashPattern where
  "md5_pattern =
     \<lparr>name_p = js ''MD5'', length_p = Some 32, charset_p = Some (js ''hex''),
      prefixes_p = None, suffixes_p = None, example_p = None, source_p = None,
      regex_p = None, notes_p = None\<rparr>"

definition ntlm_pattern :: HashPattern where
  "ntlm_pattern = md5_pattern\<lparr>name_p := js ''NTLM''\<rparr>"

section \<open>Properties\<close>

subsection \<open>Entropy\<close>

lemma bump_counts:
  "distinct ks \<Longrightarrow>
   bump (map (\<lambda>k. (k, f k)) ks) ch =
     (if ch \<in> set ks then map (\<lambda>k. (k, if k = ch then f k + 1 else f k)) ks
      else map (\<lambda>k. (k, f k)) ks @ [(ch, 1)])"
  by (induction ks) auto

lemma foldl_bump_counts:
  "distinct ks \<Longrightarrow> set ks = set seen \<Longrightarrow>
   \<exists>ks'. distinct ks' \<and> set ks' = set (seen @ chs) \<and>
     foldl bump (map (\<lambda>k. (k, count_list seen k)) ks) chs =
       map (\<lambda>k. (k, count_list (seen @ chs) k)) ks'"
proof (induction chs arbitrary: ks seen)
  case Nil
  then show ?case by auto
next
  case (Cons ch chs)
  let ?seen = "seen @ [ch]"
  let ?ks = "if ch \<in> set ks then ks else ks @ [ch]"
  have step: "bump (map (\<lambda>k. (k, count_list seen k)) ks) ch =
      map (\<lambda>k. (k, count_list ?seen k)) ?ks"
    using Cons.prems by (auto simp: bump_counts count_list_0_iff)
  have d: "distinct ?ks" and s: "set ?ks = set ?seen"
    using Cons.prems by auto
  from Cons.IH[OF d s] show ?case
    by (simp add: step)
qed

lemma freqAnalysis_counts:
  "\<exists>ks. distinct ks \<and> set ks = set (code_points str) \<and>
     freqAnalysis str = map (\<lambda>k. (k, count_list (code_points str) k)) ks"
  using foldl_bump_counts[of "[]" "[]" "code_points str"]
  by (simp add: freqAnalysis_def)

lemma count_list_pos: "x \<in> set xs \<Longrightarrow> 0 < count_list xs x"
  using count_list_0_iff[of xs x] by auto

lemma mset_object_values: "mset (object_values obj) = mset (map snd obj)"
proof -
  let ?P = "\<lambda>kv::jsstring \<times> 'a. is_index_key (fst kv)"
  have "mset (sort_key (\<lambda>kv. hd (fst kv)) (filter ?P obj) @ filter (\<lambda>kv. \<not> ?P kv) obj) = mset obj"
    by simp
  then have "image_mset snd (mset (sort_key (\<lambda>kv. hd (fst kv)) (filter ?P obj)
               @ filter (\<lambda>kv. \<not> ?P kv) obj)) = image_mset snd (mset obj)"
    by (rule arg_cong)
  then show ?thesis
    unfolding object_values_def mset_map .
qed

lemma set_object_values: "set (object_values obj) = snd ` set obj"
  using mset_object_values[of obj] by (metis set_mset_mset set_map)

lemma plogp_nonpos: "0 < (p::real) \<Longrightarrow> p \<le> 1 \<Longrightarrow> p * log 2 p \<le> 0"
proof -
  assume p: "0 < p" "p \<le> 1"
  then have "log 2 p \<le> 0" by simp
  with p show ?thesis by (simp add: mult_le_0_iff)
qed

lemma sum_list_object_values:
  fixes g :: "'a \<Rightarrow> real"
  shows "sum_list (map g (object_values obj)) = sum_list (map g (map snd obj))"
proof -
  have "mset (map g (object_values obj)) = mset (map g (map snd obj))"
    using mset_object_values[of obj] by (simp add: multiset.map_comp)
  then have "sum_mset (mset (map g (object_values obj))) = sum_mset (mset (map g (map snd obj)))"
    by (rule arg_cong)
  then show ?thesis by (simp only: sum_mset_sum_list)
qed

lemma foldl_entropy:
  "\<forall>n \<in> set ns. 0 < g n \<Longrightarrow>
   foldl (\<lambda>entropy count. let p = g count in if p > 0 then entropy - p * log 2 p else entropy) e ns
     = e - sum_list (map (\<lambda>n. g n * log 2 (g n)) ns)"
  by (induction ns arbitrary: e) (auto simp: Let_def)

lemma shannonEntropy_sum:
  "shannonEntropy str
     = - (\<Sum>ch \<in> set (code_points str).
            (real (count_list (code_points str) ch) / real (length str))
            * log 2 (real (count_list (code_points str) ch) / real (length str)))"
proof (cases "str = []")
  case True
  then show ?thesis by (simp add: shannonEntropy_def)
next
  case False
  let ?cps = "code_points str"
  let ?g = "\<lambda>n::nat. real n / real (length str)"
  obtain ks where ks: "distinct ks" "set ks = set ?cps"
    "freqAnalysis str = map (\<lambda>k. (k, count_list ?cps k)) ks"
    using freqAnalysis_counts by blast
  have pos: "\<forall>n \<in> set (object_values (freqAnalysis str)). 0 < ?g n"
    using False ks by (auto simp: set_object_values count_list_pos)
  have "shannonEntropy str =
      0 - sum_list (map (\<lambda>n. ?g n * log 2 (?g n)) (object_values (freqAnalysis str)))"
    using False foldl_entropy[OF pos, of 0] by (simp add: shannonEntropy_def)
  also have "\<dots> = - sum_list (map (\<lambda>n. ?g n * log 2 (?g n)) (map snd (freqAnalysis str)))"
    by (simp add: sum_list_object_values)
  also have "\<dots> = - sum_list (map (\<lambda>k. ?g (count_list ?cps k) * log 2 (?g (count_list ?cps k))) ks)"
    by (simp add: ks(3) comp_def)
  also have "\<dots> = - (\<Sum>ch \<in> set ?cps. ?g (count_list ?cps ch) * log 2 (?g (count_list ?cps ch)))"
    using ks(1,2) by (simp add: sum_list_distinct_conv_sum_set)
  finally show ?thesis .
qed

lemma length_code_points: "length (code_points str) \<le> length str"
  by (induction str rule: code_points.induct) auto

text \<open>
  Apart from the divisor, what is stated of \<open>shannonEntropy\<close> holds: the result is
  never negative, it is the formula for every string in which no surrogate pair occurs
  (then the code units are the characters), and the three values are as stated.
\<close>

lemma shannonEntropy_nonneg: "0 \<le> shannonEntropy str"
proof -
  have "(real (count_list (code_points str) ch) / real (length str))
          * log 2 (real (count_list (code_points str) ch) / real (length str)) \<le> 0"
    if "ch \<in> set (code_points str)" for ch
  proof -
    let ?n = "count_list (code_points str) ch"
    have "0 < ?n" using that by (rule count_list_pos)
    moreover have "?n \<le> length str"
      using count_le_length[of "code_points str" ch] length_code_points[of str] by linarith
    ultimately have "0 < length str" "0 < ?n" "?n \<le> length str"
      by linarith+
    then have "0 < real ?n / real (length str)" "real ?n / real (length str) \<le> 1"
      by simp_all
    then show ?thesis
      by (rule plogp_nonpos)
  qed
  then show ?thesis
    unfolding shannonEntropy_sum by (simp add: sum_nonpos)
qed

lemma shannonEntropy_formula:
  "length (code_points str) = length str \<Longrightarrow> shannonEntropy str = entropy_formula str"
  unfolding shannonEntropy_sum entropy_formula_def by simp

lemma histogram_aaaa: "object_values (freqAnalysis (js ''aaaa'')) = [4]"
  by code_simp

lemma histogram_ab: "object_values (freqAnalysis (js ''ab'')) = [1, 1]"
  by code_simp

lemma entropy_aaaa: "shannonEntropy (js ''aaaa'') = 0"
  by (simp add: shannonEntropy_def histogram_aaaa) (simp add: js_def)

lemma entropy_ab: "shannonEntropy (js ''ab'') = 1"
  by (simp add: shannonEntropy_def histogram_ab) (simp add: js_def log_divide)

lemma entropy_empty: "shannonEntropy [] = 0"
  by (simp add: shannonEntropy_def)

lemma histogram_grin: "object_values (freqAnalysis grin_twice) = [2]"
  unfolding grin_twice_def by code_simp

lemma code_points_grin: "code_points grin_twice = [[0xD83D, 0xDE00], [0xD83D, 0xDE00]]"
  by (simp add: grin_twice_def high_surrogate_def low_surrogate_def in_range_def)

lemma entropy_grin: "shannonEntropy grin_twice = 1 / 2"
  by (simp add: shannonEntropy_def histogram_grin) (simp add: grin_twice_def log_divide)

lemma formula_grin: "entropy_formula grin_twice = 0"
  by (simp add: entropy_formula_def code_points_grin)

text \<open>
  C8. \<open>shannonEntropy\<close> is stated to be the negated sum of \<open>p * log2 p\<close> over the
  character histogram, with \<open>p\<close> the count of a character divided by the length. The
  code counts characters by code point and divides by the number of UTF-16 code units, so
  on a string with a surrogate pair the quotients are not the probabilities of the
  characters: for two U+1F600, one distinct character of probability 1, the formula gives 0
  and the code returns 1/2.
\<close>

theorem shannonEntropy_divides_by_code_units:
  "shannonEntropy grin_twice = 1 / 2 \<and> entropy_formula grin_twice = 0"
  using entropy_grin formula_grin by (rule conjI)

subsection \<open>Charset classification\<close>

lemma isHex_isBase64: "isHex str \<Longrightarrow> isBase64 str"
proof -
  assume h: "isHex str"
  have "hex_digit c \<Longrightarrow> base64_char c" for c
    unfolding hex_digit_def base64_char_def in_range_def
    by (auto intro: order_trans[of _ "0x46" "0x5A"] order_trans[of _ "0x66" "0x7A"])
  then have "list_all base64_char str" using h by (auto simp: isHex_def list_all_iff)
  then have tw: "takeWhile base64_char str = str" and dw: "dropWhile base64_char str = []"
    by (auto simp: list_all_iff)
  show ?thesis unfolding isBase64_def tw dw using h by (simp add: isHex_def)
qed

lemma charset_names_distinct:
  "js ''hex'' \<noteq> js ''base64''" "js ''hex'' \<noteq> js ''ascii''" "js ''hex'' \<noteq> js ''unknown''"
  "js ''base64'' \<noteq> js ''ascii''" "js ''base64'' \<noteq> js ''unknown''"
  "js ''ascii'' \<noteq> js ''unknown''"
  "js ''alphanum'' \<noteq> js ''hex''" "js ''alphanum'' \<noteq> js ''base64''"
  "js ''alphanum'' \<noteq> js ''ascii''" "js ''alphanum'' \<noteq> js ''unknown''"
  by (simp_all add: js_def)

lemma getCharset_deadbeef: "getCharset (js ''deadbeef'') = js ''hex''"
  by (simp add: getCharset_def isHex_def js_def hex_digit_def in_range_def)

text \<open>
  C7. \<open>getCharset\<close> tests the hexadecimal alphabet first, then the base64 alphabet,
  then 7-bit ASCII, and answers \<open>unknown\<close> otherwise. A string that passes the
  hexadecimal test also passes the base64 test, so the order decides: every non-empty
  string over \<open>[0-9a-fA-F]\<close> is classified \<open>hex\<close> and not \<open>base64\<close>, and
  \<open>deadbeef\<close> is \<open>hex\<close>.
\<close>

theorem getCharset_order:
  "(isHex str \<longrightarrow> getCharset str = js ''hex'')
   \<and> (\<not> isHex str \<and> isBase64 str \<longrightarrow> getCharset str = js ''base64'')
   \<and> (\<not> isHex str \<and> \<not> isBase64 str \<and> isAscii str \<longrightarrow> getCharset str = js ''ascii'')
   \<and> (\<not> isHex str \<and> \<not> isBase64 str \<and> \<not> isAscii str \<longrightarrow> getCharset str = js ''unknown'')
   \<and> (str \<noteq> [] \<and> list_all hex_digit str
        \<longrightarrow> isBase64 str \<and> getCharset str = js ''hex'' \<and> getCharset str \<noteq> js ''base64'')
   \<and> getCharset (js ''deadbeef'') = js ''hex''"
proof (intro conjI impI)
  assume "str \<noteq> [] \<and> list_all hex_digit str"
  then have h: "isHex str" by (simp add: isHex_def)
  then have g: "getCharset str = js ''hex''" by (simp add: getCharset_def)
  show "isBase64 str" using h by (rule isHex_isBase64)
  show "getCharset str = js ''hex''" by (rule g)
  show "getCharset str \<noteq> js ''base64''" unfolding g by (rule charset_names_distinct(1))
next
  show "getCharset (js ''deadbeef'') = js ''hex''" by (rule getCharset_deadbeef)
qed (simp_all add: getCharset_def)

theorem getCharset_order_witness:
  "js ''deadbeef'' \<noteq> [] \<and> list_all hex_digit (js ''deadbeef'')
   \<and> isHex (js ''deadbeef'') \<and> isBase64 (js ''deadbeef'')
   \<and> getCharset (js ''deadbeef'') = js ''hex''
   \<and> getCharset (js ''deadbeef'') \<noteq> js ''base64''
   \<and> \<not> isHex (js ''SGVsbG8='') \<and> isBase64 (js ''SGVsbG8='')
   \<and> getCharset (js ''SGVsbG8='') = js ''base64''
   \<and> \<not> isHex (js ''a b'') \<and> \<not> isBase64 (js ''a b'') \<and> isAscii (js ''a b'')
   \<and> getCharset (js ''a b'') = js ''ascii''
   \<and> \<not> isHex [0xE9] \<and> \<not> isBase64 [0xE9] \<and> \<not> isAscii [0xE9]
   \<and> getCharset [0xE9] = js ''unknown''"
proof -
  have h: "js ''deadbeef'' \<noteq> [] \<and> list_all hex_digit (js ''deadbeef'')"
    by (simp add: js_def hex_digit_def in_range_def)
  then have hx: "isHex (js ''deadbeef'')" by (simp add: isHex_def)
  have b: "\<not> isHex (js ''SGVsbG8='') \<and> isBase64 (js ''SGVsbG8='')"
    by (simp add: isHex_def isBase64_def hex_digit_def base64_char_def in_range_def js_def)
  have a: "\<not> isHex (js ''a b'') \<and> \<not> isBase64 (js ''a b'') \<and> isAscii (js ''a b'')"
    by (simp add: isHex_def isBase64_def isAscii_def hex_digit_def base64_char_def in_range_def
          js_def)
  have u: "\<not> isHex [0xE9] \<and> \<not> isBase64 [0xE9] \<and> \<not> isAscii [0xE9]"
    by (simp add: isHex_def isBase64_def isAscii_def hex_digit_def base64_char_def in_range_def)
  note g1 = getCharset_order[of "js ''deadbeef''", THEN conjunct2, THEN conjunct2, THEN conjunct2,
      THEN conjunct2, THEN conjunct1, rule_format, OF h]
  note g2 = getCharset_order[of "js ''SGVsbG8=''", THEN conjunct2, THEN conjunct1, rule_format, OF b]
  note g3 = getCharset_order[of "js ''a b''", THEN conjunct2, THEN conjunct2, THEN conjunct1,
      rule_format, OF a]
  note g4 = getCharset_order[of "[0xE9]", THEN conjunct2, THEN conjunct2, THEN conjunct2,
      THEN conjunct1, rule_format, OF u]
  note facts = h[THEN conjunct1] h[THEN conjunct2] hx g1[THEN conjunct1]
    g1[THEN conjunct2, THEN conjunct1] g1[THEN conjunct2, THEN conjunct2]
    b[THEN conjunct1] b[THEN conjunct2] g2
    a[THEN conjunct1] a[THEN conjunct2, THEN conjunct1] a[THEN conjunct2, THEN conjunct2] g3
    u[THEN conjunct1] u[THEN conjunct2, THEN conjunct1] u[THEN conjunct2, THEN conjunct2] g4
  show ?thesis
    by (intro conjI) (rule facts)+
qed

subsection \<open>The candidate list\<close>

lemma foldl_append_concat:
  "foldl (\<lambda>acc x. acc @ f x) acc xs = acc @ concat (map f xs)"
  by (induction xs arbitrary: acc) auto

lemma insert_sorted_insort:
  "insert_sorted (\<lambda>a b. score_r b - score_r a) x ys = insort_key (\<lambda>r. - score_r r) x ys"
  by (induction ys) auto

lemma array_sort_sort_key:
  "array_sort (\<lambda>a b. score_r b - score_r a) xs = sort_key (\<lambda>r. - score_r r) xs"
  by (induction xs) (auto simp: array_sort_def sort_key_def insert_sorted_insort)

lemma detectCandidates_eq:
  "input \<noteq> [] \<Longrightarrow>
   detectCandidates RegExp hashPatterns input =
     take 3 (sort_key (\<lambda>r. - score_r r)
       (concat (map (candidate RegExp input (getCharset input) (shannonEntropy input)) hashPatterns)))"
  by (simp add: detectCandidates_def Let_def foldl_append_concat array_sort_sort_key)

lemma detectCandidates_empty_input: "detectCandidates RegExp hashPatterns [] = []"
  by (simp add: detectCandidates_def)

lemma set_detectCandidates:
  "set (detectCandidates RegExp hashPatterns input)
     \<subseteq> (\<Union>entry \<in> set hashPatterns.
           set (candidate RegExp input (getCharset input) (shannonEntropy input) entry))"
proof (cases "input = []")
  case True
  then show ?thesis by (simp add: detectCandidates_empty_input)
next
  case False
  have "set (detectCandidates RegExp hashPatterns input)
      \<subseteq> set (sort_key (\<lambda>r. - score_r r)
          (concat (map (candidate RegExp input (getCharset input) (shannonEntropy input)) hashPatterns)))"
    unfolding detectCandidates_eq[OF False] by (rule set_take_subset)
  then show ?thesis by auto
qed

lemma candidate_result:
  assumes "r \<in> set (candidate RegExp input charset entropy entry)"
  shows "id_r r = fst entry" "name_r r = name_p (snd entry)"
    "0.25 \<le> fst (scorePattern RegExp input charset entropy (snd entry))"
    "score_r r = min (fst (scorePattern RegExp input charset entropy (snd entry))) 1"
    "color_r r = (if score_r r > 0.8 then green else if score_r r \<ge> 0.55 then yellow else red)"
    "reasons_r r = snd (scorePattern RegExp input charset entropy (snd entry))"
  using assms by (auto simp: candidate_def Let_def split: if_splits)

subsection \<open>The example: an MD5 digest against an MD5 descriptor\<close>

lemma md5_length: "length md5_input = 32"
  by (simp add: md5_input_def js_def)

lemma md5_nonempty: "md5_input \<noteq> []"
  using md5_length by auto

lemma md5_charset: "getCharset md5_input = js ''hex''"
  by (simp add: md5_input_def getCharset_def isHex_def js_def hex_digit_def in_range_def)

lemma md5_histogram:
  "object_values (freqAnalysis md5_input) = [2, 5, 3, 3, 2, 1, 3, 4, 2, 2, 3, 2]"
  unfolding md5_input_def by code_simp

lemma md5_base64_bytes:
  "buffer_from_base64 md5_input =
     [0xE5, 0xDE, 0x35, 0xE3, 0x4D, 0x9A, 0x6D, 0xCE, 0x1B, 0xD9, 0xAE, 0xFA, 0x6F, 0xDE,
      0xF5, 0xF5, 0xDF, 0x75, 0xD7, 0x4D, 0x7B, 0x73, 0x9F, 0x76]"
  by (simp add: md5_input_def js_def buffer_from_base64_def List.map_filter_def unbase64_def
        in_range_def low_byte_def)

lemma md5_base64_value:
  "safeBase64Decode md5_input =
    Some [65533, 65533, 53, 65533, 77, 65533, 109, 65533, 27, 1646, 65533, 111,
          65533, 65533, 65533, 65533, 117, 65533, 77, 123, 115, 65533, 118]"
  by (simp add: safeBase64Decode_def md5_length md5_base64_bytes buffer_toString_utf8_def
        utf16_encode_def)

lemma md5_hex_bytes:
  "buffer_from_hex md5_input =
     [0x5D, 0x41, 0x40, 0x2A, 0xBC, 0x4B, 0x2A, 0x76, 0xB9, 0x71, 0x9D, 0x91, 0x10, 0x17,
      0xC5, 0x92]"
  by (simp add: md5_input_def js_def unhex_def in_range_def low_byte_def)

lemma md5_hex_value:
  "safeHexDecode md5_input =
    Some [93, 65, 64, 42, 65533, 75, 42, 118, 65533, 113, 65533, 65533, 16, 23, 338]"
  by (simp add: safeHexDecode_def md5_length md5_hex_bytes buffer_toString_utf8_def
        utf16_encode_def)

lemma md5_decoded:
  "truthy (safeBase64Decode md5_input)" "truthy (safeHexDecode md5_input)"
  "\<not> decodedCharsetIs (safeBase64Decode md5_input) (js ''hex'')"
  "\<not> decodedCharsetIs (safeHexDecode md5_input) (js ''hex'')"
  by (simp_all add: md5_base64_value md5_hex_value truthy_def decodedCharsetIs_def getCharset_def
        isHex_def hex_digit_def in_range_def js_def)

lemma log2_3: "3 / 2 < log 2 (3::real)"
proof -
  have "((2::real) powr (3 / 2)) ^ 2 = 2 powr 3"
    by (simp add: powr_powr flip: powr_realpow)
  then have "((2::real) powr (3 / 2)) ^ 2 < 3 ^ 2" by simp
  then have "(2::real) powr (3 / 2) < 3" by (rule power2_less_imp_less) simp
  moreover have "3 / 2 < log 2 3 \<longleftrightarrow> 2 powr (3 / 2) < (3::real)"
    by (rule less_log_iff) simp_all
  ultimately show ?thesis by blast
qed

lemma log2_5: "2 < log 2 (5::real)"
proof -
  have "(2::real) powr 2 < 5" by simp
  moreover have "2 < log 2 5 \<longleftrightarrow> 2 powr 2 < (5::real)"
    by (rule less_log_iff) simp_all
  ultimately show ?thesis by blast
qed

lemma log2_fracs:
  "log 2 (1 / 16 :: real) = - 4" "log 2 (1 / 8 :: real) = - 3" "log 2 (1 / 32 :: real) = - 5"
  "log 2 (3 / 32 :: real) = log 2 3 - 5" "log 2 (5 / 32 :: real) = log 2 5 - 5"
proof -
  have p: "log 2 (16::real) = 4" "log 2 (8::real) = 3" "log 2 (32::real) = 5"
    using log2_of_power_eq[of 16 4] log2_of_power_eq[of 8 3] log2_of_power_eq[of 32 5] by simp_all
  show "log 2 (1 / 16 :: real) = - 4" "log 2 (1 / 8 :: real) = - 3" "log 2 (1 / 32 :: real) = - 5"
    "log 2 (3 / 32 :: real) = log 2 3 - 5" "log 2 (5 / 32 :: real) = log 2 5 - 5"
    by (simp_all add: log_divide p)
qed

lemma md5_entropy_arith:
  "3 / 2 < (a::real) \<Longrightarrow> 2 < b \<Longrightarrow>
   57 / 32 + (- ((9 * a - 45) / 32) - (3 * a - 15) / 32 - (5 * b - 25) / 32) < 364 / 100"
  by argo

lemma md5_entropy: "shannonEntropy md5_input < 364 / 100"
proof -
  have v: "shannonEntropy md5_input =
      57 / 32 + (- ((9 * log 2 3 - 45) / 32) - (3 * log 2 3 - 15) / 32 - (5 * log 2 5 - 25) / 32)"
    using md5_nonempty
    by (simp add: shannonEntropy_def md5_histogram md5_length Let_def log2_fracs)
  show ?thesis unfolding v by (rule md5_entropy_arith[OF log2_3 log2_5])
qed

lemma md5_threshold: "entropyThreshold md5_input = 364 / 100"
  by (simp add: entropyThreshold_def md5_length)

lemma show_nat_32: "show_nat 32 = js ''32''"
  by (simp add: show_nat.simps[of 32] show_nat.simps[of 3] digit_unit_def js_def)

lemma md5_scorePattern:
  assumes "length_p pattern = Some 32" "charset_p pattern = Some (js ''hex'')"
    "prefixes_p pattern = None" "suffixes_p pattern = None" "regex_p pattern = None"
  shows "scorePattern RegExp md5_input (getCharset md5_input) (shannonEntropy md5_input) pattern
    = (7 / 10, [js ''Exact length match (32)'', js ''Charset match (hex)'', js ''Decodable content''])"
proof -
  have r: "regexStep RegExp pattern md5_input (0, []) = (0, [])"
    by (simp add: regexStep_def assms truthy_def)
  have p: "prefixStep pattern md5_input (0, []) = (0, [])"
    by (simp add: prefixStep_def matchedPrefix_def assms)
  have l: "lengthStep pattern md5_input (0, [])
      = (4 / 10, [js ''Exact length match (32)''])"
    by (simp add: lengthStep_def assms md5_length credit_def show_int_def show_nat_32 js_def)
  have hx: "truthy (Some (js ''hex''))" by (simp add: truthy_def js_def)
  have c: "charsetStep pattern md5_input (getCharset md5_input) (4 / 10, [js ''Exact length match (32)''])
      = (6 / 10, [js ''Exact length match (32)'', js ''Charset match (hex)''])"
    by (simp add: charsetStep_def assms hx md5_charset md5_decoded charsetVariation_def
          charsetMatch_def credit_def Let_def) (simp add: js_def)
  have s: "suffixStep pattern md5_input t = t" for t
    by (simp add: suffixStep_def matchedSuffix_def assms)
  have e: "entropyStep md5_input (shannonEntropy md5_input) t = t" for t
    using md5_entropy by (simp add: entropyStep_def md5_threshold)
  have d: "decodingStep pattern md5_input (6 / 10, rs) = (7 / 10, rs @ [js ''Decodable content''])" for rs
    by (simp add: decodingStep_def assms hx md5_decoded credit_def Let_def)
  have g: "signatureStep pattern md5_input t = t" for t
    by (simp add: signatureStep_def matchedPrefix_def assms)
  show ?thesis
    unfolding scorePattern_def r p l c s e d g by simp
qed

lemma md5_candidate:
  assumes "length_p pattern = Some 32" "charset_p pattern = Some (js ''hex'')"
    "prefixes_p pattern = None" "suffixes_p pattern = None" "regex_p pattern = None"
  shows "candidate RegExp md5_input (getCharset md5_input) (shannonEntropy md5_input) (patternId, pattern)
    = [\<lparr>id_r = patternId, name_r = name_p pattern, score_r = 7 / 10, color_r = yellow,
         reasons_r = [js ''Exact length match (32)'', js ''Charset match (hex)'',
                      js ''Decodable content'']\<rparr>]"
  by (simp add: candidate_def Let_def md5_scorePattern[OF assms])

lemma md5_pattern_fields:
  "length_p md5_pattern = Some 32" "charset_p md5_pattern = Some (js ''hex'')"
  "prefixes_p md5_pattern = None" "suffixes_p md5_pattern = None" "regex_p md5_pattern = None"
  "name_p md5_pattern = js ''MD5''"
  "length_p ntlm_pattern = Some 32" "charset_p ntlm_pattern = Some (js ''hex'')"
  "prefixes_p ntlm_pattern = None" "suffixes_p ntlm_pattern = None" "regex_p ntlm_pattern = None"
  "name_p ntlm_pattern = js ''NTLM''"
  by (simp_all add: md5_pattern_def ntlm_pattern_def)

lemma md5_detect:
  "detectCandidates RegExp [(js ''md5'', md5_pattern)] md5_input
    = [\<lparr>id_r = js ''md5'', name_r = js ''MD5'', score_r = 7 / 10, color_r = yellow,
         reasons_r = [js ''Exact length match (32)'', js ''Charset match (hex)'',
                      js ''Decodable content'']\<rparr>]"
  by (simp add: detectCandidates_eq[OF md5_nonempty]
        md5_candidate[OF md5_pattern_fields(1-5)] md5_pattern_fields(6))

lemma two_md5_candidates:
  "detectCandidates RegExp [(js ''md5'', md5_pattern), (js ''ntlm'', ntlm_pattern)] md5_input
    = [\<lparr>id_r = js ''md5'', name_r = js ''MD5'', score_r = 7 / 10, color_r = yellow,
         reasons_r = [js ''Exact length match (32)'', js ''Charset match (hex)'',
                      js ''Decodable content'']\<rparr>,
       \<lparr>id_r = js ''ntlm'', name_r = js ''NTLM'', score_r = 7 / 10, color_r = yellow,
         reasons_r = [js ''Exact length match (32)'', js ''Charset match (hex)'',
                      js ''Decodable content'']\<rparr>]"
  by (simp add: detectCandidates_eq[OF md5_nonempty]
        md5_candidate[OF md5_pattern_fields(1-5)] md5_candidate[OF md5_pattern_fields(7-11)]
        md5_pattern_fields(6,12))

subsection \<open>Scores and tiers\<close>

lemma detectCandidates_score_bounds:
  assumes "r \<in> set (detectCandidates RegExp hashPatterns input)"
  shows "0.25 \<le> score_r r" "score_r r \<le> 1"
proof -
  from assms set_detectCandidates obtain entry where
    r: "r \<in> set (candidate RegExp input (getCharset input) (shannonEntropy input) entry)"
    by blast
  show "0.25 \<le> score_r r" "score_r r \<le> 1"
    using candidate_result(3,4)[OF r] by auto
qed

text \<open>
  C4. Every result of \<open>detectCandidates\<close> has a score between 0 and 1. It comes from a
  descriptor of the catalog whose score before clamping is at least 0.25, and its score is that
  score clamped to 1. Its tier is green when the score is above 0.8, yellow from 0.55 up to
  0.8, and red from 0.25 up to but excluding 0.55.
\<close>

theorem detectCandidates_score_tier:
  assumes "r \<in> set (detectCandidates RegExp hashPatterns input)"
  shows "0 \<le> score_r r \<and> score_r r \<le> 1
     \<and> (\<exists>entry \<in> set hashPatterns.
           id_r r = fst entry \<and> name_r r = name_p (snd entry)
           \<and> 0.25 \<le> fst (scorePattern RegExp input (getCharset input) (shannonEntropy input) (snd entry))
           \<and> score_r r = min (fst (scorePattern RegExp input (getCharset input) (shannonEntropy input) (snd entry))) 1)
     \<and> (color_r r = green \<longleftrightarrow> 0.8 < score_r r)
     \<and> (color_r r = yellow \<longleftrightarrow> 0.55 \<le> score_r r \<and> score_r r \<le> 0.8)
     \<and> (color_r r = red \<longleftrightarrow> 0.25 \<le> score_r r \<and> score_r r < 0.55)"
proof -
  from assms set_detectCandidates obtain entry where e: "entry \<in> set hashPatterns"
    and r: "r \<in> set (candidate RegExp input (getCharset input) (shannonEntropy input) entry)"
    by blast
  note c = candidate_result[OF r]
  have b: "0.25 \<le> score_r r" "score_r r \<le> 1" using c(3,4) by auto
  show ?thesis
    using e c b by (intro conjI bexI[of _ entry]) auto
qed

theorem detectCandidates_score_tier_witness:
  "\<lparr>id_r = js ''md5'', name_r = js ''MD5'', score_r = 7 / 10, color_r = yellow,
     reasons_r = [js ''Exact length match (32)'', js ''Charset match (hex)'',
                  js ''Decodable content'']\<rparr>
     \<in> set (detectCandidates no_RegExp [(js ''md5'', md5_pattern)] md5_input)
   \<and> fst (scorePattern no_RegExp md5_input (getCharset md5_input) (shannonEntropy md5_input) md5_pattern)
       = 7 / 10"
proof -
  let ?r = "\<lparr>id_r = js ''md5'', name_r = js ''MD5'', score_r = 7 / 10, color_r = yellow,
     reasons_r = [js ''Exact length match (32)'', js ''Charset match (hex)'',
                  js ''Decodable content'']\<rparr>"
  have m: "?r \<in> set (detectCandidates no_RegExp [(js ''md5'', md5_pattern)] md5_input)"
    by (simp add: md5_detect)
  from detectCandidates_score_tier[OF m]
  have "score_r ?r = min (fst (scorePattern no_RegExp md5_input (getCharset md5_input)
          (shannonEntropy md5_input) md5_pattern)) 1"
    by simp
  moreover have "0.25 \<le> fst (scorePattern no_RegExp md5_input (getCharset md5_input)
          (shannonEntropy md5_input) md5_pattern)"
    using detectCandidates_score_tier[OF m] by simp
  ultimately show ?thesis using m by (simp add: min_def split: if_splits)
qed

text \<open>
  C3 (as amended). For the input \<open>5d41402abc4b2a76b9719d911017c592\<close> and a descriptor
  with exact length 32, charset tag \<open>hex\<close> and no regex, prefixes or suffixes, the score
  is 0.7, the sum of exact length 0.4, charset match 0.2 and decodable content 0.1. The
  entropy bonus does not apply (the entropy is below the threshold 3.64) and neither
  decoding of the input classifies as \<open>hex\<close>. A catalog of that descriptor alone gives
  that one result, with tier yellow; in any catalog with unique identifiers a result for that
  descriptor has score 0.7 and tier yellow.
\<close>

theorem md5_descriptor_scores_07:
  assumes "length_p pattern = Some 32" "charset_p pattern = Some (js ''hex'')"
    "prefixes_p pattern = None" "suffixes_p pattern = None" "regex_p pattern = None"
  shows "scorePattern RegExp md5_input (getCharset md5_input) (shannonEntropy md5_input) pattern
      = (7 / 10, [js ''Exact length match (32)'', js ''Charset match (hex)'',
                  js ''Decodable content''])
    \<and> detectCandidates RegExp [(patternId, pattern)] md5_input
      = [\<lparr>id_r = patternId, name_r = name_p pattern, score_r = 7 / 10, color_r = yellow,
           reasons_r = [js ''Exact length match (32)'', js ''Charset match (hex)'',
                        js ''Decodable content'']\<rparr>]
    \<and> (\<forall>r \<in> set (detectCandidates RegExp hashPatterns md5_input).
          distinct (map fst hashPatterns) \<and> (patternId, pattern) \<in> set hashPatterns
          \<and> id_r r = patternId
          \<longrightarrow> score_r r = 7 / 10 \<and> color_r r = yellow)"
proof (intro conjI ballI impI)
  show "scorePattern RegExp md5_input (getCharset md5_input) (shannonEntropy md5_input) pattern
      = (7 / 10, [js ''Exact length match (32)'', js ''Charset match (hex)'',
                  js ''Decodable content''])"
    by (rule md5_scorePattern[OF assms])
  show "detectCandidates RegExp [(patternId, pattern)] md5_input
      = [\<lparr>id_r = patternId, name_r = name_p pattern, score_r = 7 / 10, color_r = yellow,
           reasons_r = [js ''Exact length match (32)'', js ''Charset match (hex)'',
                        js ''Decodable content'']\<rparr>]"
    by (simp add: detectCandidates_eq[OF md5_nonempty] md5_candidate[OF assms])
next
  fix r
  assume r: "r \<in> set (detectCandidates RegExp hashPatterns md5_input)"
    and h: "distinct (map fst hashPatterns) \<and> (patternId, pattern) \<in> set hashPatterns
          \<and> id_r r = patternId"
  from r set_detectCandidates obtain entry where e: "entry \<in> set hashPatterns"
    and c: "r \<in> set (candidate RegExp md5_input (getCharset md5_input)
                        (shannonEntropy md5_input) entry)"
    by blast
  have "fst entry = patternId" using candidate_result(1)[OF c] h by simp
  then have "entry = (patternId, pattern)"
    using e h eq_key_imp_eq_value[of hashPatterns patternId "snd entry" pattern]
    by (cases entry) auto
  then have "r = \<lparr>id_r = patternId, name_r = name_p pattern, score_r = 7 / 10, color_r = yellow,
           reasons_r = [js ''Exact length match (32)'', js ''Charset match (hex)'',
                        js ''Decodable content'']\<rparr>"
    using c by (simp add: md5_candidate[OF assms])
  then show "score_r r = 7 / 10" "color_r r = yellow" by simp_all
qed

theorem md5_descriptor_scores_07_witness:
  "length_p md5_pattern = Some 32 \<and> charset_p md5_pattern = Some (js ''hex'')
   \<and> prefixes_p md5_pattern = None \<and> suffixes_p md5_pattern = None \<and> regex_p md5_pattern = None
   \<and> scorePattern no_RegExp md5_input (getCharset md5_input) (shannonEntropy md5_input) md5_pattern
      = (7 / 10, [js ''Exact length match (32)'', js ''Charset match (hex)'',
                  js ''Decodable content''])
   \<and> map id_r (detectCandidates no_RegExp [(js ''md5'', md5_pattern)] md5_input) = [js ''md5'']
   \<and> map color_r (detectCandidates no_RegExp [(js ''md5'', md5_pattern)] md5_input) = [yellow]
   \<and> distinct (map fst [(js ''md5'', md5_pattern), (js ''ntlm'', ntlm_pattern)])
   \<and> (js ''md5'', md5_pattern) \<in> set [(js ''md5'', md5_pattern), (js ''ntlm'', ntlm_pattern)]
   \<and> hd (detectCandidates no_RegExp [(js ''md5'', md5_pattern), (js ''ntlm'', ntlm_pattern)] md5_input)
       \<in> set (detectCandidates no_RegExp [(js ''md5'', md5_pattern), (js ''ntlm'', ntlm_pattern)] md5_input)
   \<and> id_r (hd (detectCandidates no_RegExp [(js ''md5'', md5_pattern), (js ''ntlm'', ntlm_pattern)] md5_input))
       = js ''md5''
   \<and> score_r (hd (detectCandidates no_RegExp [(js ''md5'', md5_pattern), (js ''ntlm'', ntlm_pattern)] md5_input))
       = 7 / 10"
proof -
  let ?cat = "[(js ''md5'', md5_pattern), (js ''ntlm'', ntlm_pattern)]"
  let ?r = "hd (detectCandidates no_RegExp ?cat md5_input)"
  have k: "js ''md5'' \<noteq> js ''ntlm''" by (simp add: js_def)
  have d: "distinct (map fst ?cat)" and m: "(js ''md5'', md5_pattern) \<in> set ?cat"
    using k by simp_all
  have r: "?r \<in> set (detectCandidates no_RegExp ?cat md5_input)" and i: "id_r ?r = js ''md5''"
    by (simp_all add: two_md5_candidates)
  note t = md5_descriptor_scores_07[OF md5_pattern_fields(1-5), of no_RegExp "js ''md5''" ?cat]
  from t have "\<forall>r \<in> set (detectCandidates no_RegExp ?cat md5_input).
          distinct (map fst ?cat) \<and> (js ''md5'', md5_pattern) \<in> set ?cat \<and> id_r r = js ''md5''
          \<longrightarrow> score_r r = 7 / 10 \<and> color_r r = yellow"
    by blast
  with r d m i have s: "score_r ?r = 7 / 10" by blast
  from t have "scorePattern no_RegExp md5_input (getCharset md5_input) (shannonEntropy md5_input)
        md5_pattern
      = (7 / 10, [js ''Exact length match (32)'', js ''Charset match (hex)'',
                  js ''Decodable content''])"
    and "detectCandidates no_RegExp [(js ''md5'', md5_pattern)] md5_input
      = [\<lparr>id_r = js ''md5'', name_r = name_p md5_pattern, score_r = 7 / 10, color_r = yellow,
           reasons_r = [js ''Exact length match (32)'', js ''Charset match (hex)'',
                        js ''Decodable content'']\<rparr>]"
    by blast+
  then show ?thesis
    using md5_pattern_fields(1-5) d m r i s by simp
qed

text \<open>
  With a score above 0.8 in place of 0.7 the property fails: the catalog of that descriptor
  alone returns the one result below.
\<close>

theorem md5_score_is_07_not_above_08:
  "detectCandidates no_RegExp [(js ''md5'', md5_pattern)] md5_input
    = [\<lparr>id_r = js ''md5'', name_r = js ''MD5'', score_r = 7 / 10, color_r = yellow,
         reasons_r = [js ''Exact length match (32)'', js ''Charset match (hex)'',
                      js ''Decodable content'']\<rparr>]
   \<and> \<not> (8 / 10 < (7 / 10 :: real))"
  by (simp add: md5_detect)

subsection \<open>The charset variation bonus\<close>

lemma getCharset_cases:
  "getCharset str \<in> {js ''hex'', js ''base64'', js ''ascii'', js ''unknown''}"
  by (simp add: getCharset_def)

lemma getCharset_not_alphanum: "getCharset str \<noteq> js ''alphanum''"
  using getCharset_cases[of str] charset_names_distinct(7-10) by auto

lemma no_charsetVariation: "\<not> charsetVariation cs (getCharset input) input"
  using getCharset_not_alphanum[of input]
  by (auto simp: charsetVariation_def charsetMatch_def)


lemma credit_reasons:
  "list_all Q (snd (credit weight reason t)) = (list_all Q (snd t) \<and> Q reason)"
  by (simp add: credit_def)

lemma other_reasons:
  "\<not> variation_reason (js ''Regex pattern match'')"
  "\<not> variation_reason (js ''Prefix match ('' @ x)"
  "\<not> variation_reason (js ''Exact length match ('' @ x)"
  "\<not> variation_reason (js ''Fuzzy length match ('' @ x)"
  "\<not> variation_reason (js ''Near length match ('' @ x)"
  "\<not> variation_reason (js ''Charset match ('' @ x)"
  "\<not> variation_reason (js ''Decoded charset match ('' @ x)"
  "\<not> variation_reason (js ''Suffix match ('' @ x)"
  "\<not> variation_reason (js ''High entropy ('' @ x)"
  "\<not> variation_reason (js ''Decodable content'')"
  "\<not> variation_reason (js ''Decoded content charset match'')"
  "\<not> variation_reason (js ''Signature match ('' @ x)"
  by (simp_all add: variation_reason_def js_def)

lemma regexStep_reasons:
  "list_all (\<lambda>reason. \<not> variation_reason reason) (snd t) \<Longrightarrow>
   list_all (\<lambda>reason. \<not> variation_reason reason) (snd (regexStep RegExp pattern input t))"
  by (simp add: regexStep_def credit_reasons other_reasons split: option.splits)

lemma prefixStep_reasons:
  "list_all (\<lambda>reason. \<not> variation_reason reason) (snd t) \<Longrightarrow>
   list_all (\<lambda>reason. \<not> variation_reason reason) (snd (prefixStep pattern input t))"
  by (simp add: prefixStep_def credit_reasons other_reasons split: option.splits)

lemma lengthStep_reasons:
  "list_all (\<lambda>reason. \<not> variation_reason reason) (snd t) \<Longrightarrow>
   list_all (\<lambda>reason. \<not> variation_reason reason) (snd (lengthStep pattern input t))"
  by (simp add: lengthStep_def Let_def credit_reasons other_reasons split: option.splits)

lemma charsetStep_reasons:
  "list_all (\<lambda>reason. \<not> variation_reason reason) (snd t) \<Longrightarrow>
   list_all (\<lambda>reason. \<not> variation_reason reason)
     (snd (charsetStep pattern input (getCharset input) t))"
  by (simp add: charsetStep_def Let_def credit_reasons other_reasons no_charsetVariation)

lemma suffixStep_reasons:
  "list_all (\<lambda>reason. \<not> variation_reason reason) (snd t) \<Longrightarrow>
   list_all (\<lambda>reason. \<not> variation_reason reason) (snd (suffixStep pattern input t))"
  by (simp add: suffixStep_def credit_reasons other_reasons split: option.splits)

lemma entropyStep_reasons:
  "list_all (\<lambda>reason. \<not> variation_reason reason) (snd t) \<Longrightarrow>
   list_all (\<lambda>reason. \<not> variation_reason reason) (snd (entropyStep input entropy t))"
  by (simp add: entropyStep_def credit_reasons other_reasons)

lemma decodingStep_reasons:
  "list_all (\<lambda>reason. \<not> variation_reason reason) (snd t) \<Longrightarrow>
   list_all (\<lambda>reason. \<not> variation_reason reason) (snd (decodingStep pattern input t))"
  by (simp add: decodingStep_def Let_def credit_reasons other_reasons)

lemma signatureStep_reasons:
  "list_all (\<lambda>reason. \<not> variation_reason reason) (snd t) \<Longrightarrow>
   list_all (\<lambda>reason. \<not> variation_reason reason) (snd (signatureStep pattern input t))"
  by (simp add: signatureStep_def credit_reasons other_reasons)

lemma scorePattern_reasons:
  "list_all (\<lambda>reason. \<not> variation_reason reason)
     (snd (scorePattern RegExp input (getCharset input) entropy pattern))"
  unfolding scorePattern_def
  by (intro signatureStep_reasons decodingStep_reasons entropyStep_reasons suffixStep_reasons
        charsetStep_reasons lengthStep_reasons prefixStep_reasons regexStep_reasons) simp

text \<open>
  C10. The charset variation branch of step 4 is never taken. \<open>getCharset\<close> answers
  \<open>hex\<close>, \<open>base64\<close>, \<open>ascii\<close> or \<open>unknown\<close> and never \<open>alphanum\<close>;
  when the descriptor's tag and the input's class are both \<open>hex\<close> the direct match has
  set \<open>charsetMatch\<close>; so the condition of the branch is false for every input and every
  tag, and no result of \<open>detectCandidates\<close> carries the evidence string of the branch.
\<close>

theorem charset_variation_never_fires:
  "getCharset input \<in> {js ''hex'', js ''base64'', js ''ascii'', js ''unknown''}
   \<and> getCharset input \<noteq> js ''alphanum''
   \<and> (cs = js ''hex'' \<and> getCharset input = js ''hex'' \<longrightarrow> charsetMatch cs (getCharset input) input)
   \<and> \<not> charsetVariation cs (getCharset input) input
   \<and> (\<forall>r \<in> set (detectCandidates RegExp hashPatterns input).
         \<forall>reason \<in> set (reasons_r r). \<not> variation_reason reason)"
proof (intro conjI ballI impI)
  show "getCharset input \<in> {js ''hex'', js ''base64'', js ''ascii'', js ''unknown''}"
    by (rule getCharset_cases)
  show "getCharset input \<noteq> js ''alphanum''" by (rule getCharset_not_alphanum)
  show "\<not> charsetVariation cs (getCharset input) input" by (rule no_charsetVariation)
next
  assume "cs = js ''hex'' \<and> getCharset input = js ''hex''"
  then show "charsetMatch cs (getCharset input) input" by (simp add: charsetMatch_def)
next
  fix r reason
  assume r: "r \<in> set (detectCandidates RegExp hashPatterns input)"
    and m: "reason \<in> set (reasons_r r)"
  from r set_detectCandidates obtain entry where
    c: "r \<in> set (candidate RegExp input (getCharset input) (shannonEntropy input) entry)"
    by blast
  have "list_all (\<lambda>reason. \<not> variation_reason reason) (reasons_r r)"
    unfolding candidate_result(6)[OF c] by (rule scorePattern_reasons)
  then show "\<not> variation_reason reason" using m by (simp add: list_all_iff)
qed

theorem charset_variation_never_fires_witness:
  "js ''hex'' = js ''hex'' \<and> getCharset md5_input = js ''hex''
   \<and> charsetMatch (js ''hex'') (getCharset md5_input) md5_input
   \<and> \<not> charsetVariation (js ''hex'') (getCharset md5_input) md5_input
   \<and> list_all (\<lambda>r. list_all (\<lambda>reason. \<not> variation_reason reason) (reasons_r r))
        (detectCandidates no_RegExp [(js ''md5'', md5_pattern)] md5_input)
   \<and> detectCandidates no_RegExp [(js ''md5'', md5_pattern)] md5_input \<noteq> []"
  using charset_variation_never_fires[of md5_input "js ''hex''" no_RegExp "[(js ''md5'', md5_pattern)]"]
    md5_charset md5_detect[of no_RegExp]
  by (simp add: list_all_iff)

subsection \<open>Ranking\<close>



lemma detectCandidates_length: "length (detectCandidates RegExp hashPatterns input) \<le> 3"
  by (simp add: detectCandidates_def Let_def)



subsection \<open>The aggregator\<close>

lemma analyzeInput_valid:
  assumes "input \<noteq> []" "length input \<le> 10000"
  shows "\<exists>res. analyzeInput RegExp hashPatterns input = Inr res
     \<and> analyzeInput_try RegExp hashPatterns input = Inr res
     \<and> input_a res = input
     \<and> results_a res = (if detectCandidates RegExp hashPatterns input = [] then [unknownResult]
                         else detectCandidates RegExp hashPatterns input)
     \<and> stats_a res = getCharStats input
     \<and> decoding_a res =
         probe (js ''html'') (decodeHTML input)
          (probe (js ''unicode'') (decodeUnicode input)
            (probe (js ''octal'') (decodeOctal input)
              (probe (js ''binary'') (decodeBinary input)
                (probe (js ''url'') (decodeURL input)
                  (probe (js ''rot13'') (decodeROT13 input)
                    (probe (js ''hex'') (safeHexDecode input)
                      (probe (js ''base64'') (safeBase64Decode input) [])))))))"
  using assms by (simp add: analyzeInput_def analyzeInput_try_def Let_def)

lemma analyzeInput_invalid:
  assumes "input = [] \<or> 10000 < length input"
  shows "analyzeInput_try RegExp hashPatterns input
      = Inl (Error (if input = [] then js ''Invalid input: must be a non-empty string''
                    else js ''Input too long: maximum 10,000 characters allowed''))"
    "analyzeInput RegExp hashPatterns input
      = Inr (fallback input
          (Error (if input = [] then js ''Invalid input: must be a non-empty string''
                  else js ''Input too long: maximum 10,000 characters allowed'')))"
  using assms by (auto simp: analyzeInput_def analyzeInput_try_def)



lemma analyze_unknown:
  assumes "input \<noteq> []" "length input \<le> 10000"
    and "detectCandidates RegExp hashPatterns input = []"
  shows "\<exists>res. analyzeInput RegExp hashPatterns input = Inr res
          \<and> results_a res = [\<lparr>id_r = js ''unknown'', name_r = js ''Unknown'', score_r = 0,
                                color_r = red, reasons_r = [js ''no patterns matched'']\<rparr>]"
proof -
  from analyzeInput_valid[OF assms(1,2), of RegExp hashPatterns] obtain res where
    res: "analyzeInput RegExp hashPatterns input = Inr res"
      "results_a res = (if detectCandidates RegExp hashPatterns input = [] then [unknownResult]
                         else detectCandidates RegExp hashPatterns input)"
    by blast
  have "results_a res = [unknownResult]" using res(2) assms(3) by simp
  then show ?thesis using res(1) unfolding unknownResult_def by (intro exI[of _ res]) simp
qed

lemma no_candidates:
  assumes "\<forall>entry \<in> set hps.
           fst (scorePattern RegExp input (getCharset input) (shannonEntropy input) (snd entry)) < 0.25"
  shows "detectCandidates RegExp hps input = []"
proof (cases "input = []")
  case True
  then show ?thesis by (simp add: detectCandidates_empty_input)
next
  case False
  have c: "concat (map (candidate RegExp input (getCharset input) (shannonEntropy input)) hps) = []"
    using assms by (auto simp: candidate_def Let_def)
  show ?thesis unfolding detectCandidates_eq[OF False] c by simp
qed

lemma zz_facts:
  "length (js ''zz'') = 2" "getCharset (js ''zz'') = js ''base64''"
  "safeBase64Decode (js ''zz'') = Some [0xFFFD]" "safeHexDecode (js ''zz'') = Some []"
  "shannonEntropy (js ''zz'') = 0"
proof -
  show "length (js ''zz'') = 2" by (simp add: js_def)
  show "getCharset (js ''zz'') = js ''base64''"
    by (simp add: getCharset_def isHex_def isBase64_def hex_digit_def base64_char_def
          in_range_def js_def)
  show "safeBase64Decode (js ''zz'') = Some [0xFFFD]"
    by (simp add: safeBase64Decode_def buffer_from_base64_def List.map_filter_def unbase64_def
          in_range_def low_byte_def buffer_toString_utf8_def utf16_encode_def js_def)
  show "safeHexDecode (js ''zz'') = Some []"
    by (simp add: safeHexDecode_def unhex_def in_range_def low_byte_def buffer_toString_utf8_def
          js_def)
  have "object_values (freqAnalysis (js ''zz'')) = [2]" by code_simp
  then show "shannonEntropy (js ''zz'') = 0"
    by (simp add: shannonEntropy_def) (simp add: js_def)
qed

lemma zz_score:
  "scorePattern RegExp (js ''zz'') (getCharset (js ''zz'')) (shannonEntropy (js ''zz'')) md5_pattern
    = (1 / 10, [js ''Decodable content''])"
proof -
  have hx: "truthy (Some (js ''hex''))" by (simp add: truthy_def js_def)
  have d: "truthy (safeBase64Decode (js ''zz''))" "\<not> truthy (safeHexDecode (js ''zz''))"
    "\<not> decodedCharsetIs (safeBase64Decode (js ''zz'')) (js ''hex'')"
    "\<not> decodedCharsetIs (safeHexDecode (js ''zz'')) (js ''hex'')"
    by (simp_all add: zz_facts(3,4) truthy_def decodedCharsetIs_def)
       (simp add: getCharset_def isHex_def hex_digit_def in_range_def js_def)
  have r: "regexStep RegExp md5_pattern (js ''zz'') (0, []) = (0, [])"
    by (simp add: regexStep_def md5_pattern_fields truthy_def)
  have p: "prefixStep md5_pattern (js ''zz'') t = t" for t
    by (simp add: prefixStep_def matchedPrefix_def md5_pattern_fields)
  have l: "lengthStep md5_pattern (js ''zz'') t = t" for t
    by (simp add: lengthStep_def md5_pattern_fields zz_facts)
  have nv: "\<not> charsetVariation (js ''hex'') (js ''base64'') (js ''zz'')"
    using no_charsetVariation[of "js ''hex''" "js ''zz''"] by (simp add: zz_facts(2))
  have c: "charsetStep md5_pattern (js ''zz'') (getCharset (js ''zz'')) t = t" for t
    by (simp add: charsetStep_def md5_pattern_fields hx d zz_facts(2) nv
          charset_names_distinct(1) Let_def)
  have s: "suffixStep md5_pattern (js ''zz'') t = t" for t
    by (simp add: suffixStep_def matchedSuffix_def md5_pattern_fields)
  have e: "entropyStep (js ''zz'') (shannonEntropy (js ''zz'')) t = t" for t
    by (simp add: entropyStep_def entropyThreshold_def zz_facts)
  have g: "decodingStep md5_pattern (js ''zz'') (0, []) = (1 / 10, [js ''Decodable content''])"
    by (simp add: decodingStep_def md5_pattern_fields hx d credit_def Let_def)
  have sg: "signatureStep md5_pattern (js ''zz'') t = t" for t
    by (simp add: signatureStep_def matchedPrefix_def md5_pattern_fields)
  show ?thesis
    unfolding scorePattern_def r p l c s e g sg ..
qed

text \<open>
  C6 (as amended). For every input that is not empty and has at most 10,000 characters,
  when no descriptor of the catalog reaches the inclusion threshold 0.25, and in particular
  when the catalog is empty, \<open>analyzeInput\<close> returns exactly one result: identifier
  \<open>unknown\<close>, name \<open>Unknown\<close>, score 0, tier red and the single evidence string
  \<open>no patterns matched\<close>. (For the empty string and for a longer input the single
  result is the \<open>error\<close> result of the \<open>catch\<close> block instead.)
\<close>

theorem analyzeInput_unknown_sentinel:
  "(input \<noteq> [] \<and> length input \<le> 10000
     \<and> (\<forall>entry \<in> set hashPatterns.
           fst (scorePattern RegExp input (getCharset input) (shannonEntropy input) (snd entry)) < 0.25)
    \<longrightarrow> (\<exists>res. analyzeInput RegExp hashPatterns input = Inr res
          \<and> results_a res = [\<lparr>id_r = js ''unknown'', name_r = js ''Unknown'', score_r = 0,
                                color_r = red, reasons_r = [js ''no patterns matched'']\<rparr>]))
   \<and> (input \<noteq> [] \<and> length input \<le> 10000
    \<longrightarrow> (\<exists>res. analyzeInput RegExp [] input = Inr res
          \<and> results_a res = [\<lparr>id_r = js ''unknown'', name_r = js ''Unknown'', score_r = 0,
                                color_r = red, reasons_r = [js ''no patterns matched'']\<rparr>]))"
proof (intro conjI impI)
  assume a: "input \<noteq> [] \<and> length input \<le> 10000
     \<and> (\<forall>entry \<in> set hashPatterns.
           fst (scorePattern RegExp input (getCharset input) (shannonEntropy input) (snd entry)) < 0.25)"
  then have "detectCandidates RegExp hashPatterns input = []" by (intro no_candidates) simp
  with a show "\<exists>res. analyzeInput RegExp hashPatterns input = Inr res
          \<and> results_a res = [\<lparr>id_r = js ''unknown'', name_r = js ''Unknown'', score_r = 0,
                                color_r = red, reasons_r = [js ''no patterns matched'']\<rparr>]"
    by (intro analyze_unknown) simp_all
next
  assume a: "input \<noteq> [] \<and> length input \<le> 10000"
  have "detectCandidates RegExp [] input = []" by (intro no_candidates) simp
  with a show "\<exists>res. analyzeInput RegExp [] input = Inr res
          \<and> results_a res = [\<lparr>id_r = js ''unknown'', name_r = js ''Unknown'', score_r = 0,
                                color_r = red, reasons_r = [js ''no patterns matched'']\<rparr>]"
    by (intro analyze_unknown) simp_all
qed

theorem analyzeInput_unknown_sentinel_witness:
  "js ''zz'' \<noteq> [] \<and> length (js ''zz'') \<le> 10000
   \<and> fst (scorePattern no_RegExp (js ''zz'') (getCharset (js ''zz'')) (shannonEntropy (js ''zz''))
            md5_pattern) = 1 / 10
   \<and> (\<exists>res. analyzeInput no_RegExp [(js ''md5'', md5_pattern)] (js ''zz'') = Inr res
         \<and> results_a res = [\<lparr>id_r = js ''unknown'', name_r = js ''Unknown'', score_r = 0,
                               color_r = red, reasons_r = [js ''no patterns matched'']\<rparr>])
   \<and> (\<exists>res. analyzeInput no_RegExp [] (js ''zz'') = Inr res
         \<and> results_a res = [\<lparr>id_r = js ''unknown'', name_r = js ''Unknown'', score_r = 0,
                               color_r = red, reasons_r = [js ''no patterns matched'']\<rparr>])"
proof -
  have v: "js ''zz'' \<noteq> []" "length (js ''zz'') \<le> 10000" using zz_facts(1) by auto
  have s: "fst (scorePattern no_RegExp (js ''zz'') (getCharset (js ''zz''))
                  (shannonEntropy (js ''zz'')) md5_pattern) = 1 / 10"
    by (simp add: zz_score)
  then have "\<forall>entry \<in> set [(js ''md5'', md5_pattern)].
      fst (scorePattern no_RegExp (js ''zz'') (getCharset (js ''zz''))
                  (shannonEntropy (js ''zz'')) (snd entry)) < 0.25"
    by simp
  with v show ?thesis
    using s analyzeInput_unknown_sentinel[of "js ''zz''" "[(js ''md5'', md5_pattern)]" no_RegExp]
    by blast
qed

text \<open>
  The bound on the input cannot be dropped. With an empty catalog no descriptor reaches the
  threshold, whatever the input; yet for the empty string, and for a string of 10,001
  characters, the single result returned is the \<open>error\<close> result, not the
  \<open>unknown\<close> one.
\<close>

theorem analyzeInput_empty_catalog_error_result:
  "(\<exists>res. analyzeInput no_RegExp [] [] = Inr res
       \<and> results_a res
          = [\<lparr>id_r = js ''error'', name_r = js ''Analysis Error'', score_r = 0, color_r = red,
               reasons_r = [js ''analysis failed: Invalid input: must be a non-empty string'']\<rparr>]
       \<and> results_a res
          \<noteq> [\<lparr>id_r = js ''unknown'', name_r = js ''Unknown'', score_r = 0, color_r = red,
               reasons_r = [js ''no patterns matched'']\<rparr>])
   \<and> (\<exists>res. analyzeInput no_RegExp [] (replicate 10001 0x7A) = Inr res
       \<and> results_a res
          = [\<lparr>id_r = js ''error'', name_r = js ''Analysis Error'', score_r = 0, color_r = red,
               reasons_r = [js ''analysis failed: Input too long: maximum 10,000 characters allowed'']\<rparr>]
       \<and> results_a res
          \<noteq> [\<lparr>id_r = js ''unknown'', name_r = js ''Unknown'', score_r = 0, color_r = red,
               reasons_r = [js ''no patterns matched'']\<rparr>])"
proof (intro conjI)
  show "\<exists>res. analyzeInput no_RegExp [] [] = Inr res
       \<and> results_a res
          = [\<lparr>id_r = js ''error'', name_r = js ''Analysis Error'', score_r = 0, color_r = red,
               reasons_r = [js ''analysis failed: Invalid input: must be a non-empty string'']\<rparr>]
       \<and> results_a res
          \<noteq> [\<lparr>id_r = js ''unknown'', name_r = js ''Unknown'', score_r = 0, color_r = red,
               reasons_r = [js ''no patterns matched'']\<rparr>]"
    unfolding analyzeInput_invalid(2)[of "[]" no_RegExp "[]", simplified]
    by (simp add: fallback_def js_def)
next
  have l: "replicate 10001 (0x7A :: code_unit) = [] \<or> 10000 < length (replicate 10001 (0x7A :: code_unit))"
    by simp
  show "\<exists>res. analyzeInput no_RegExp [] (replicate 10001 0x7A) = Inr res
       \<and> results_a res
          = [\<lparr>id_r = js ''error'', name_r = js ''Analysis Error'', score_r = 0, color_r = red,
               reasons_r = [js ''analysis failed: Input too long: maximum 10,000 characters allowed'']\<rparr>]
       \<and> results_a res
          \<noteq> [\<lparr>id_r = js ''unknown'', name_r = js ''Unknown'', score_r = 0, color_r = red,
               reasons_r = [js ''no patterns matched'']\<rparr>]"
    unfolding analyzeInput_invalid(2)[OF l, of no_RegExp "[]"]
    by (simp add: fallback_def js_def)
qed

text \<open>
  C2. For every string, the empty one and those longer than 10,000 characters included,
  \<open>analyzeInput\<close> returns an analysis record and throws nothing: the record repeats the
  input and has between one and three results, each with a score between 0 and 1. The
  \<open>try\<close> block fails exactly when the input is empty or too long, and a failure of the
  \<open>try\<close> block becomes the degraded record: a single result with identifier
  \<open>error\<close>, score 0, tier red and the evidence \<open>analysis failed: \<close> followed by the
  error's message, with empty decoding and frequency entries.
\<close>

theorem analyzeInput_total:
  "\<exists>res. analyzeInput RegExp hashPatterns input = Inr res
     \<and> input_a res = input
     \<and> results_a res \<noteq> [] \<and> length (results_a res) \<le> 3
     \<and> list_all (\<lambda>r. 0 \<le> score_r r \<and> score_r r \<le> 1) (results_a res)
     \<and> (\<forall>error. analyzeInput_try RegExp hashPatterns input = Inl error \<longrightarrow>
           results_a res = [\<lparr>id_r = js ''error'', name_r = js ''Analysis Error'', score_r = 0,
                               color_r = red,
                               reasons_r = [js ''analysis failed: '' @ message error]\<rparr>]
           \<and> decoding_a res = [] \<and> freq_a res = [])
     \<and> ((\<exists>error. analyzeInput_try RegExp hashPatterns input = Inl error)
          \<longleftrightarrow> input = [] \<or> 10000 < length input)"
proof (cases "input = [] \<or> 10000 < length input")
  case True
  note inv = analyzeInput_invalid[OF True, of RegExp hashPatterns]
  show ?thesis
    unfolding inv using True
    by (intro exI[of _ "fallback input
          (Error (if input = [] then js ''Invalid input: must be a non-empty string''
                  else js ''Input too long: maximum 10,000 characters allowed''))"])
       (simp add: fallback_def)
next
  case False
  then have v: "input \<noteq> []" "length input \<le> 10000" by auto
  from analyzeInput_valid[OF v, of RegExp hashPatterns] obtain res where
    res: "analyzeInput RegExp hashPatterns input = Inr res"
      "analyzeInput_try RegExp hashPatterns input = Inr res" "input_a res = input"
      "results_a res = (if detectCandidates RegExp hashPatterns input = [] then [unknownResult]
                         else detectCandidates RegExp hashPatterns input)"
    by blast
  have ne: "results_a res \<noteq> []" using res(4) by simp
  have len: "length (results_a res) \<le> 3"
    using res(4) detectCandidates_length[of RegExp hashPatterns input] by simp
  have sc: "list_all (\<lambda>r. 0 \<le> score_r r \<and> score_r r \<le> 1) (results_a res)"
  proof (cases "detectCandidates RegExp hashPatterns input = []")
    case True
    then show ?thesis using res(4) by (simp add: unknownResult_def)
  next
    case False
    have "0 \<le> score_r r \<and> score_r r \<le> 1"
      if "r \<in> set (detectCandidates RegExp hashPatterns input)" for r
      using detectCandidates_score_bounds[OF that] by simp
    then show ?thesis using res(4) False by (simp add: list_all_iff)
  qed
  show ?thesis
    using res(1,2,3) ne len sc False by (intro exI[of _ res]) simp
qed

theorem analyzeInput_total_witness:
  "analyzeInput_try no_RegExp [(js ''md5'', md5_pattern)] []
     = Inl (Error (js ''Invalid input: must be a non-empty string''))
   \<and> (\<exists>res. analyzeInput no_RegExp [(js ''md5'', md5_pattern)] [] = Inr res
         \<and> results_a res
            = [\<lparr>id_r = js ''error'', name_r = js ''Analysis Error'', score_r = 0, color_r = red,
                 reasons_r = [js ''analysis failed: ''
                                @ js ''Invalid input: must be a non-empty string'']\<rparr>]
         \<and> decoding_a res = [] \<and> freq_a res = [])"
proof -
  have t: "analyzeInput_try no_RegExp [(js ''md5'', md5_pattern)] []
     = Inl (Error (js ''Invalid input: must be a non-empty string''))"
    by (simp add: analyzeInput_try_def)
  from analyzeInput_total[of no_RegExp "[(js ''md5'', md5_pattern)]" "[]"] obtain res where
    res: "analyzeInput no_RegExp [(js ''md5'', md5_pattern)] [] = Inr res"
    and f: "\<forall>error. analyzeInput_try no_RegExp [(js ''md5'', md5_pattern)] [] = Inl error \<longrightarrow>
           results_a res = [\<lparr>id_r = js ''error'', name_r = js ''Analysis Error'', score_r = 0,
                               color_r = red,
                               reasons_r = [js ''analysis failed: '' @ message error]\<rparr>]
           \<and> decoding_a res = [] \<and> freq_a res = []"
    by blast
  from f[rule_format, OF t] res t show ?thesis
    by (intro conjI exI[of _ res]) simp_all
qed

text \<open>
  C1 (as amended). For every string that is empty or longer than 10,000 characters the
  validation error is raised inside \<open>analyzeInput\<close> and caught by the function's own
  \<open>catch\<close> block: the call does not throw, it returns the degraded record, which
  repeats the input and has the single result \<open>error\<close> (name \<open>Analysis Error\<close>,
  score 0, tier red) whose evidence is \<open>analysis failed: \<close> followed by the message of
  the validation error, and empty decoding and frequency entries. For every other string
  the \<open>try\<close> block raises nothing. (A value that is not a string is excluded by the type
  of the parameter.)
\<close>

theorem analyzeInput_validation_absorbed:
  "(input = [] \<longrightarrow>
      analyzeInput_try RegExp hashPatterns input
        = Inl (Error (js ''Invalid input: must be a non-empty string''))
      \<and> (\<exists>res. analyzeInput RegExp hashPatterns input = Inr res \<and> input_a res = input
            \<and> results_a res
               = [\<lparr>id_r = js ''error'', name_r = js ''Analysis Error'', score_r = 0, color_r = red,
                    reasons_r = [js ''analysis failed: Invalid input: must be a non-empty string'']\<rparr>]
            \<and> decoding_a res = [] \<and> freq_a res = []))
   \<and> (10000 < length input \<longrightarrow>
      analyzeInput_try RegExp hashPatterns input
        = Inl (Error (js ''Input too long: maximum 10,000 characters allowed''))
      \<and> (\<exists>res. analyzeInput RegExp hashPatterns input = Inr res \<and> input_a res = input
            \<and> results_a res
               = [\<lparr>id_r = js ''error'', name_r = js ''Analysis Error'', score_r = 0, color_r = red,
                    reasons_r = [js ''analysis failed: Input too long: maximum 10,000 characters allowed'']\<rparr>]
            \<and> decoding_a res = [] \<and> freq_a res = []))
   \<and> (input \<noteq> [] \<and> length input \<le> 10000 \<longrightarrow>
      (\<exists>res. analyzeInput_try RegExp hashPatterns input = Inr res))"
proof (intro conjI impI)
  assume e: "input = []"
  then have i: "input = [] \<or> 10000 < length input" by simp
  show "analyzeInput_try RegExp hashPatterns input
        = Inl (Error (js ''Invalid input: must be a non-empty string''))"
    using analyzeInput_invalid(1)[OF i, of RegExp hashPatterns] e by simp
  show "\<exists>res. analyzeInput RegExp hashPatterns input = Inr res \<and> input_a res = input
            \<and> results_a res
               = [\<lparr>id_r = js ''error'', name_r = js ''Analysis Error'', score_r = 0, color_r = red,
                    reasons_r = [js ''analysis failed: Invalid input: must be a non-empty string'']\<rparr>]
            \<and> decoding_a res = [] \<and> freq_a res = []"
    unfolding analyzeInput_invalid(2)[OF i, of RegExp hashPatterns] using e
    by (simp add: fallback_def js_def)
next
  assume l: "10000 < length input"
  then have i: "input = [] \<or> 10000 < length input" and ne: "input \<noteq> []" by auto
  show "analyzeInput_try RegExp hashPatterns input
        = Inl (Error (js ''Input too long: maximum 10,000 characters allowed''))"
    using analyzeInput_invalid(1)[OF i, of RegExp hashPatterns] ne by simp
  show "\<exists>res. analyzeInput RegExp hashPatterns input = Inr res \<and> input_a res = input
            \<and> results_a res
               = [\<lparr>id_r = js ''error'', name_r = js ''Analysis Error'', score_r = 0, color_r = red,
                    reasons_r = [js ''analysis failed: Input too long: maximum 10,000 characters allowed'']\<rparr>]
            \<and> decoding_a res = [] \<and> freq_a res = []"
    unfolding analyzeInput_invalid(2)[OF i, of RegExp hashPatterns] using ne
    by (simp add: fallback_def js_def)
next
  assume "input \<noteq> [] \<and> length input \<le> 10000"
  then show "\<exists>res. analyzeInput_try RegExp hashPatterns input = Inr res"
    using analyzeInput_valid[of input RegExp hashPatterns] by blast
qed

theorem analyzeInput_validation_absorbed_witness:
  "10000 < length (replicate 10001 (0x61 :: code_unit))
   \<and> analyzeInput_try no_RegExp [] (replicate 10001 0x61)
        = Inl (Error (js ''Input too long: maximum 10,000 characters allowed''))
   \<and> (\<exists>res. analyzeInput no_RegExp [] (replicate 10001 0x61) = Inr res
         \<and> results_a res
            = [\<lparr>id_r = js ''error'', name_r = js ''Analysis Error'', score_r = 0, color_r = red,
                 reasons_r = [js ''analysis failed: Input too long: maximum 10,000 characters allowed'']\<rparr>])
   \<and> analyzeInput_try no_RegExp [] []
        = Inl (Error (js ''Invalid input: must be a non-empty string''))
   \<and> (\<exists>res. analyzeInput no_RegExp [] [] = Inr res
         \<and> results_a res
            = [\<lparr>id_r = js ''error'', name_r = js ''Analysis Error'', score_r = 0, color_r = red,
                 reasons_r = [js ''analysis failed: Invalid input: must be a non-empty string'']\<rparr>])
   \<and> md5_input \<noteq> [] \<and> length md5_input \<le> 10000
   \<and> (\<exists>res. analyzeInput_try no_RegExp [] md5_input = Inr res)"
proof -
  have l: "10000 < length (replicate 10001 (0x61 :: code_unit))" by simp
  have v: "md5_input \<noteq> [] \<and> length md5_input \<le> 10000" using md5_length by auto
  note long = analyzeInput_validation_absorbed[of "replicate 10001 0x61" no_RegExp "[]",
      THEN conjunct2, THEN conjunct1, rule_format, OF l]
  note empty = analyzeInput_validation_absorbed[of "[]" no_RegExp "[]",
      THEN conjunct1, rule_format, OF refl]
  note valid = analyzeInput_validation_absorbed[of md5_input no_RegExp "[]",
      THEN conjunct2, THEN conjunct2, rule_format, OF v]
  show ?thesis
  proof (intro conjI)
    show "10000 < length (replicate 10001 (0x61 :: code_unit))" by (rule l)
    show "analyzeInput_try no_RegExp [] (replicate 10001 0x61)
        = Inl (Error (js ''Input too long: maximum 10,000 characters allowed''))"
      by (rule long[THEN conjunct1])
    show "analyzeInput_try no_RegExp [] []
        = Inl (Error (js ''Invalid input: must be a non-empty string''))"
      by (rule empty[THEN conjunct1])
    show "md5_input \<noteq> []" "length md5_input \<le> 10000" using v by simp_all
    show "\<exists>res. analyzeInput_try no_RegExp [] md5_input = Inr res" by (rule valid)
    from long[THEN conjunct2] obtain res where
      "analyzeInput no_RegExp [] (replicate 10001 0x61) = Inr res"
      "results_a res
            = [\<lparr>id_r = js ''error'', name_r = js ''Analysis Error'', score_r = 0, color_r = red,
                 reasons_r = [js ''analysis failed: Input too long: maximum 10,000 characters allowed'']\<rparr>]"
      by blast
    then show "\<exists>res. analyzeInput no_RegExp [] (replicate 10001 0x61) = Inr res
         \<and> results_a res
            = [\<lparr>id_r = js ''error'', name_r = js ''Analysis Error'', score_r = 0, color_r = red,
                 reasons_r = [js ''analysis failed: Input too long: maximum 10,000 characters allowed'']\<rparr>]"
      by blast
    from empty[THEN conjunct2] obtain res where
      "analyzeInput no_RegExp [] [] = Inr res"
      "results_a res
            = [\<lparr>id_r = js ''error'', name_r = js ''Analysis Error'', score_r = 0, color_r = red,
                 reasons_r = [js ''analysis failed: Invalid input: must be a non-empty string'']\<rparr>]"
      by blast
    then show "\<exists>res. analyzeInput no_RegExp [] [] = Inr res
         \<and> results_a res
            = [\<lparr>id_r = js ''error'', name_r = js ''Analysis Error'', score_r = 0, color_r = red,
                 reasons_r = [js ''analysis failed: Invalid input: must be a non-empty string'']\<rparr>]"
      by blast
  qed
qed

text \<open>
  A rejection of the call does not happen: for the empty string the function returns the
  record below, and for a string of 10,001 characters it returns a record as well.
\<close>

theorem analyzeInput_empty_not_rejected:
  "analyzeInput no_RegExp [] []
     = Inr \<lparr>input_a = [],
            results_a = [\<lparr>id_r = js ''error'', name_r = js ''Analysis Error'', score_r = 0,
                           color_r = red,
                           reasons_r = [js ''analysis failed: Invalid input: must be a non-empty string'']\<rparr>],
            stats_a = \<lparr>total_s = 0, unique_s = 0, digits_s = 0, letters_s = 0, special_s = 0,
                       entropy_s = 0\<rparr>,
            decoding_a = [], freq_a = []\<rparr>
   \<and> \<not> isl (analyzeInput no_RegExp [] (replicate 10001 0x61))"
proof -
  have "analyzeInput no_RegExp [] (replicate 10001 0x61)
      = Inr (fallback (replicate 10001 0x61)
               (Error (js ''Input too long: maximum 10,000 characters allowed'')))"
    using analyzeInput_invalid(2)[of "replicate 10001 0x61" no_RegExp "[]"] by simp
  then have "\<not> isl (analyzeInput no_RegExp [] (replicate 10001 0x61))" by simp
  moreover have "analyzeInput no_RegExp [] []
     = Inr \<lparr>input_a = [],
            results_a = [\<lparr>id_r = js ''error'', name_r = js ''Analysis Error'', score_r = 0,
                           color_r = red,
                           reasons_r = [js ''analysis failed: Invalid input: must be a non-empty string'']\<rparr>],
            stats_a = \<lparr>total_s = 0, unique_s = 0, digits_s = 0, letters_s = 0, special_s = 0,
                       entropy_s = 0\<rparr>,
            decoding_a = [], freq_a = []\<rparr>"
    using analyzeInput_invalid(2)[of "[]" no_RegExp "[]"] by (simp add: fallback_def js_def)
  ultimately show ?thesis by blast
qed

subsection \<open>The decoding entries\<close>

lemma map_of_probe:
  "map_of (probe key decoded decoding) k =
     (case map_of decoding k of
        Some v \<Rightarrow> Some v
      | None \<Rightarrow> if k = key \<and> truthy decoded then decoded else None)"
  by (auto simp: probe_def truthy_def map_add_def split: option.splits)

lemma probe_values:
  "list_all (\<lambda>kv. snd kv \<noteq> []) decoding \<Longrightarrow>
   list_all (\<lambda>kv. snd kv \<noteq> []) (probe key decoded decoding)"
  by (auto simp: probe_def truthy_def split: option.splits)

lemma decoding_keys_distinct:
  "js ''rot13'' \<noteq> js ''base64''" "js ''rot13'' \<noteq> js ''hex''"
  by (simp_all add: js_def)

lemma decodeROT13_truthy: "input \<noteq> [] \<Longrightarrow> truthy (decodeROT13 input)"
  by (simp add: decodeROT13_def truthy_def)

lemma decodeROT13_no_letters:
  "filter isLetter input = [] \<Longrightarrow> decodeROT13 input = Some input"
  by (simp add: decodeROT13_def filter_empty_conv map_idI)

lemma map_of_probe_keep:
  "map_of decoding k = Some v \<Longrightarrow> map_of (probe key decoded decoding) k = Some v"
  by (simp add: map_of_probe)

lemma map_of_probe_other:
  "k \<noteq> key \<Longrightarrow> map_of decoding k = None \<Longrightarrow> map_of (probe key decoded decoding) k = None"
  by (simp add: map_of_probe)

lemma map_of_probe_hit:
  "truthy decoded \<Longrightarrow> map_of decoding key = None \<Longrightarrow>
   map_of (probe key decoded decoding) key = decoded"
  by (simp add: map_of_probe)

lemma rot13_entry:
  assumes "input \<noteq> []"
  shows "map_of
     (probe (js ''html'') (decodeHTML input)
       (probe (js ''unicode'') (decodeUnicode input)
         (probe (js ''octal'') (decodeOctal input)
           (probe (js ''binary'') (decodeBinary input)
             (probe (js ''url'') (decodeURL input)
               (probe (js ''rot13'') (decodeROT13 input)
                 (probe (js ''hex'') (safeHexDecode input)
                   (probe (js ''base64'') (safeBase64Decode input) []))))))))
     (js ''rot13'') = decodeROT13 input"
proof -
  obtain s where s: "decodeROT13 input = Some s" by (simp add: decodeROT13_def)
  have "map_of (probe (js ''hex'') (safeHexDecode input)
                 (probe (js ''base64'') (safeBase64Decode input) [])) (js ''rot13'') = None"
    by (intro map_of_probe_other decoding_keys_distinct) simp
  then have "map_of (probe (js ''rot13'') (decodeROT13 input)
                 (probe (js ''hex'') (safeHexDecode input)
                   (probe (js ''base64'') (safeBase64Decode input) []))) (js ''rot13'') = Some s"
    using map_of_probe_hit[OF decodeROT13_truthy[OF assms]] s by simp
  note map_of_probe_keep[OF map_of_probe_keep[OF map_of_probe_keep[OF
        map_of_probe_keep[OF map_of_probe_keep[OF this]]]]]
  then show ?thesis
    unfolding s .
qed

lemma decoding_values:
  "list_all (\<lambda>kv. snd kv \<noteq> [])
     (probe (js ''html'') (decodeHTML input)
       (probe (js ''unicode'') (decodeUnicode input)
         (probe (js ''octal'') (decodeOctal input)
           (probe (js ''binary'') (decodeBinary input)
             (probe (js ''url'') (decodeURL input)
               (probe (js ''rot13'') (decodeROT13 input)
                 (probe (js ''hex'') (safeHexDecode input)
                   (probe (js ''base64'') (safeBase64Decode input) []))))))))"
  by (intro probe_values) simp

lemma digits_facts:
  "js ''12345'' \<noteq> []" "length (js ''12345'') \<le> 10000" "filter isLetter (js ''12345'') = []"
  by (simp_all add: js_def isLetter_def in_range_def)

lemma digits_probes:
  "safeBase64Decode (js ''12345'') = Some [0xFFFD, 0x6D, 0xFFFD]"
  "safeHexDecode (js ''12345'') = None"
  "decodeROT13 (js ''12345'') = Some (js ''12345'')"
  "decodeURL (js ''12345'') = Some (js ''12345'')"
  "decodeBinary (js ''12345'') = None"
  "decodeOctal (js ''12345'') = Some (js ''S'')"
  "decodeUnicode (js ''12345'') = None"
  "decodeHTML (js ''12345'') = None"
proof -
  show "safeBase64Decode (js ''12345'') = Some [0xFFFD, 0x6D, 0xFFFD]"
    by (simp add: safeBase64Decode_def buffer_from_base64_def List.map_filter_def unbase64_def
          in_range_def low_byte_def buffer_toString_utf8_def utf16_encode_def js_def)
  show "safeHexDecode (js ''12345'') = None"
    by (simp add: safeHexDecode_def js_def)
  show "decodeROT13 (js ''12345'') = Some (js ''12345'')"
    by (simp add: decodeROT13_def isLetter_def in_range_def js_def)
  show "decodeURL (js ''12345'') = Some (js ''12345'')"
    by (simp add: decodeURL_def decodeURIComponent_def js_def)
  show "decodeBinary (js ''12345'') = None"
    by (simp add: decodeBinary_def in_range_def js_def)
  show "decodeOctal (js ''12345'') = Some (js ''S'')"
    by code_simp
  show "decodeUnicode (js ''12345'') = None"
    by (simp add: decodeUnicode_def js_def)
  show "decodeHTML (js ''12345'') = None"
    by (simp add: decodeHTML_def htmlEntities_def js_def)
qed

text \<open>
  C9 (as amended). For every valid input the key \<open>rot13\<close> is present in the decoding
  entries of the analysis record. Its value is the input with every ASCII letter rotated by
  13 places within its case; for an input without ASCII letters that value is the input
  itself. No entry of the decoding object has an empty value.
\<close>

theorem rot13_key_always_present:
  assumes "input \<noteq> []" "length input \<le> 10000"
  shows "\<exists>res. analyzeInput RegExp hashPatterns input = Inr res
     \<and> map_of (decoding_a res) (js ''rot13'')
         = Some (map (\<lambda>char. if isLetter char then rot13_unit char else char) input)
     \<and> (filter isLetter input = [] \<longrightarrow> map_of (decoding_a res) (js ''rot13'') = Some input)
     \<and> list_all (\<lambda>kv. snd kv \<noteq> []) (decoding_a res)"
proof -
  from analyzeInput_valid[OF assms, of RegExp hashPatterns] obtain res where
    res: "analyzeInput RegExp hashPatterns input = Inr res"
    and d: "decoding_a res =
         probe (js ''html'') (decodeHTML input)
          (probe (js ''unicode'') (decodeUnicode input)
            (probe (js ''octal'') (decodeOctal input)
              (probe (js ''binary'') (decodeBinary input)
                (probe (js ''url'') (decodeURL input)
                  (probe (js ''rot13'') (decodeROT13 input)
                    (probe (js ''hex'') (safeHexDecode input)
                      (probe (js ''base64'') (safeBase64Decode input) [])))))))"
    by blast
  have m: "map_of (decoding_a res) (js ''rot13'') = decodeROT13 input"
    unfolding d by (rule rot13_entry[OF assms(1)])
  show ?thesis
  proof (intro exI[of _ res] conjI impI)
    show "analyzeInput RegExp hashPatterns input = Inr res" by (rule res)
    show "map_of (decoding_a res) (js ''rot13'')
         = Some (map (\<lambda>char. if isLetter char then rot13_unit char else char) input)"
      unfolding m by (simp add: decodeROT13_def)
    show "list_all (\<lambda>kv. snd kv \<noteq> []) (decoding_a res)"
      unfolding d by (rule decoding_values)
  next
    assume "filter isLetter input = []"
    then show "map_of (decoding_a res) (js ''rot13'') = Some input"
      unfolding m by (rule decodeROT13_no_letters)
  qed
qed

theorem rot13_key_always_present_witness:
  "js ''Uryyb'' \<noteq> [] \<and> length (js ''Uryyb'') \<le> 10000
   \<and> (\<exists>res. analyzeInput no_RegExp [] (js ''Uryyb'') = Inr res
         \<and> map_of (decoding_a res) (js ''rot13'') = Some (js ''Hello''))
   \<and> js ''12345'' \<noteq> [] \<and> length (js ''12345'') \<le> 10000
   \<and> filter isLetter (js ''12345'') = []
   \<and> (\<exists>res. analyzeInput no_RegExp [] (js ''12345'') = Inr res
         \<and> map_of (decoding_a res) (js ''rot13'') = Some (js ''12345''))"
proof -
  have v: "js ''Uryyb'' \<noteq> []" "length (js ''Uryyb'') \<le> 10000" by (simp_all add: js_def)
  have r: "map (\<lambda>char. if isLetter char then rot13_unit char else char) (js ''Uryyb'') = js ''Hello''"
    by (simp add: js_def isLetter_def in_range_def rot13_unit_def)
  from rot13_key_always_present[OF v, of no_RegExp "[]"]
  have a: "\<exists>res. analyzeInput no_RegExp [] (js ''Uryyb'') = Inr res
         \<and> map_of (decoding_a res) (js ''rot13'') = Some (js ''Hello'')"
    unfolding r by blast
  from rot13_key_always_present[OF digits_facts(1,2), of no_RegExp "[]"] digits_facts(3)
  have b: "\<exists>res. analyzeInput no_RegExp [] (js ''12345'') = Inr res
         \<and> map_of (decoding_a res) (js ''rot13'') = Some (js ''12345'')"
    by blast
  show ?thesis using v digits_facts a b by blast
qed

text \<open>
  The key is not left out when the input has no letters: for \<open>12345\<close> the decoding
  object has the four entries below, \<open>rot13\<close> among them.
\<close>

theorem rot13_key_present_without_letters:
  "filter isLetter (js ''12345'') = []
   \<and> decoding_a (projr (analyzeInput no_RegExp [] (js ''12345'')))
       = [(js ''base64'', [0xFFFD, 0x6D, 0xFFFD]), (js ''rot13'', js ''12345''),
          (js ''url'', js ''12345''), (js ''octal'', js ''S'')]"
proof -
  from analyzeInput_valid[OF digits_facts(1,2), of no_RegExp "[]"] obtain res where
    res: "analyzeInput no_RegExp [] (js ''12345'') = Inr res"
    and d: "decoding_a res =
         probe (js ''html'') (decodeHTML (js ''12345''))
          (probe (js ''unicode'') (decodeUnicode (js ''12345''))
            (probe (js ''octal'') (decodeOctal (js ''12345''))
              (probe (js ''binary'') (decodeBinary (js ''12345''))
                (probe (js ''url'') (decodeURL (js ''12345''))
                  (probe (js ''rot13'') (decodeROT13 (js ''12345''))
                    (probe (js ''hex'') (safeHexDecode (js ''12345''))
                      (probe (js ''base64'') (safeBase64Decode (js ''12345'')) [])))))))"
    by blast
  have "decoding_a res
       = [(js ''base64'', [0xFFFD, 0x6D, 0xFFFD]), (js ''rot13'', js ''12345''),
          (js ''url'', js ''12345''), (js ''octal'', js ''S'')]"
    unfolding d digits_probes by (simp add: probe_def truthy_def js_def)
  then show ?thesis using res digits_facts(3) by simp
qed

end
